theory Spec2Isabelle
  imports Main "HOL-Library.Word"
begin

section \<open>Platform types\<close>

text \<open>
  Pointers, function pointers and kernel handles are addresses; the null pointer is
  address 0.  An \<open>HRESULT\<close> is a 32-bit value whose sign bit signals failure.
\<close>

type_synonym ptr = nat
type_synonym HANDLE = nat
type_synonym HRESULT = "32 word"
type_synonym DWORD = "32 word"

abbreviation NULL :: nat where
  "NULL \<equiv> 0"

definition S_OK :: HRESULT where
  "S_OK = 0"

definition E_FAIL :: HRESULT where
  "E_FAIL = 0x80004005"

definition E_ACCESSDENIED :: HRESULT where
  "E_ACCESSDENIED = 0x80070005"

definition FAILED :: "HRESULT \<Rightarrow> bool" where
  "FAILED hr = (sint hr < 0)"

definition SUCCEEDED :: "HRESULT \<Rightarrow> bool" where
  "SUCCEEDED hr = (0 \<le> sint hr)"

definition WAIT_OBJECT_0 :: DWORD where
  "WAIT_OBJECT_0 = 0"

text \<open>The enumerations of \<open>audio_sys.h\<close>, as the spec lists them (result codes OK,
  INVALID_ARG, INVALID_STATE, ERROR; states STARTING, RUNNING, STOPPED).\<close>

datatype AUDIO_RESULT =
    AUDIO_RESULT_OK
  | AUDIO_RESULT_INVALID_ARG
  | AUDIO_RESULT_INVALID_STATE
  | AUDIO_RESULT_ERROR

datatype AUDIO_STATE =
    AUDIO_STATE_STARTING
  | AUDIO_STATE_RUNNING
  | AUDIO_STATE_STOPPED

record WAVEFORMATEX =
  wFormatTag :: "16 word"
  nChannels :: "16 word"
  nSamplesPerSec :: "32 word"
  nAvgBytesPerSec :: "32 word"
  nBlockAlign :: "16 word"
  wBitsPerSample :: "16 word"
  cbSize :: "16 word"

section \<open>The data model of \<open>audio_sys_winrt.cpp\<close>\<close>

text \<open>\<open>class WASAPICapture\<close> (lines 31-47).  The promise is a single-assignment slot:
  \<open>None\<close> until \<open>set_value\<close> has been called.\<close>

record WASAPICapture =
  pAudioInputClient :: ptr
  audioInFormat :: WAVEFORMATEX
  hBufferReady :: HANDLE
  hCaptureThreadShouldExit :: HANDLE
  m_promise :: "HRESULT option"

text \<open>
  The capture thread is a sequential program that blocks in platform calls.  Its frame
  holds the locals of \<open>captureThreadProc\<close> (lines 303-313) and the call it is blocked in.
\<close>

datatype capture_pc =
    InGetService         \<comment> \<open>line 321, \<open>GetService\<close>\<close>
  | InNew                \<comment> \<open>line 326, \<open>new BYTE[...]\<close>\<close>
  | InWait               \<comment> \<open>line 334, \<open>WaitForMultipleObjects\<close>\<close>
  | InGetNextPacketSize  \<comment> \<open>line 339\<close>
  | InGetBuffer          \<comment> \<open>line 346, \<open>GetBufferAndCallBackClient\<close>\<close>
  | Returned             \<comment> \<open>line 380, \<open>return 0\<close>\<close>
  | Faulted              \<comment> \<open>stopped by a call through a null client pointer\<close>
  | Terminated           \<comment> \<open>\<open>std::terminate\<close>: an exception has left the thread function\<close>

record capture_frame =
  pc :: capture_pc
  pCaptureClient :: ptr
  packetLength :: "32 word"
  audio_result :: int
  pAudioData :: ptr
  totalSize :: "64 word"

text \<open>A \<open>std::thread\<close>: default-constructed or joined (not joinable), or owning a thread
  of execution, which stays joinable after its function has returned.\<close>

datatype thread = NotJoinable | Joinable capture_frame

text \<open>\<open>AUDIO_SYS_DATA\<close> (lines 49-73).  \<open>hDeviceName\<close> is a \<open>STRING_HANDLE\<close>: null, or a
  string store with its content.\<close>

record AUDIO_SYS_DATA =
  hCaptureThread :: thread
  spCapture :: WASAPICapture
  pAudioOutputDevice :: ptr
  hRenderThreadShouldExit :: HANDLE
  hRenderThreadDidExit :: HANDLE
  output_canceled :: bool
  error_cb :: ptr
  output_state_cb :: ptr
  input_state_cb :: ptr
  audio_write_cb :: ptr
  user_write_ctx :: ptr
  user_outputctx :: ptr
  user_inputctx :: ptr
  user_errorctx :: ptr
  current_output_state :: AUDIO_STATE
  current_input_state :: AUDIO_STATE
  hDeviceName :: "string option"
  inputFrameCnt :: "64 word"

text \<open>An \<open>AUDIO_SYS_HANDLE\<close> is a pointer to the session: \<open>None\<close> is the null handle, and
  \<open>Some d\<close> points to the session \<open>d\<close>.  Every operation returns the session as it has
  left it.\<close>

type_synonym AUDIO_SYS_HANDLE = "AUDIO_SYS_DATA option"

section \<open>Callback registration\<close>

text \<open>\<open>audio_setcallbacks\<close> (lines 269-297).  The assignments are in the order of the
  source; \<open>user_errorctx\<close> is assigned twice (lines 285 and 286).\<close>

definition audio_setcallbacks ::
  "AUDIO_SYS_HANDLE \<Rightarrow> ptr \<Rightarrow> ptr \<Rightarrow> ptr \<Rightarrow> ptr \<Rightarrow> ptr \<Rightarrow> ptr \<Rightarrow> ptr \<Rightarrow> ptr
     \<Rightarrow> AUDIO_RESULT \<times> AUDIO_SYS_HANDLE" where
  "audio_setcallbacks handle output_cb output_ctx input_cb input_ctx
       write_cb write_ctx err_cb err_ctx =
     (case handle of
        None \<Rightarrow> (AUDIO_RESULT_INVALID_ARG, None)
      | Some audioData \<Rightarrow>
          if write_cb \<noteq> NULL then
            (AUDIO_RESULT_OK,
             Some (audioData
               \<lparr> error_cb := err_cb,
                 user_errorctx := err_ctx,
                 user_errorctx := err_cb,
                 input_state_cb := input_cb,
                 user_inputctx := input_ctx,
                 output_state_cb := output_cb,
                 user_outputctx := output_ctx,
                 audio_write_cb := write_cb,
                 user_write_ctx := write_ctx \<rparr>))
          else (AUDIO_RESULT_INVALID_ARG, Some audioData))"

section \<open>Options\<close>

text \<open>
  The \<open>value\<close> argument of \<open>audio_set_options\<close> is an untyped pointer: null, or the address
  of an \<open>int\<close> (frame count) or of a C string (device name).
\<close>

datatype option_value = IntValue "32 word" | StringValue string

datatype fault =
    NullPointerCall        \<comment> \<open>a member call through a null pointer\<close>
  | BadPointerCast         \<comment> \<open>a pointer read at a type it does not point to\<close>
  | JoinNeverReturns       \<comment> \<open>the joined thread does not return\<close>

text \<open>
  The string store of \<open>azure_c_shared_utility\<close>.  \<open>STRING_construct\<close> returns null when
  it cannot allocate; \<open>STRING_copy\<close> leaves the store as it is when it cannot, and its
  result is not looked at by the caller (lines 470, 472).  Whether the allocation
  succeeds is the platform's choice, \<open>alloc_ok\<close>.
\<close>

definition STRING_construct :: "bool \<Rightarrow> string \<Rightarrow> string option" where
  "STRING_construct alloc_ok s = (if alloc_ok then Some s else None)"

definition STRING_copy :: "bool \<Rightarrow> string \<Rightarrow> string \<Rightarrow> string" where
  "STRING_copy alloc_ok old s = (if alloc_ok then s else old)"

text \<open>
  \<open>audio_set_options\<close> (lines 444-483).  The two option names are macros of
  \<open>audio_sys.h\<close>, not of this file, and are parameters here:
  \<open>frame_count_option\<close> is \<open>AUDIO_OPTION_INPUT_FRAME_COUNT\<close> and \<open>devicename_option\<close> is
  \<open>AUDIO_OPTION_DEVICENAME\<close>.  \<open>(size_t)*((int*)value)\<close> sign-extends.
\<close>

definition audio_set_options ::
  "string \<Rightarrow> string \<Rightarrow> bool \<Rightarrow> AUDIO_SYS_HANDLE \<Rightarrow> string \<Rightarrow> option_value option
     \<Rightarrow> fault + AUDIO_RESULT \<times> AUDIO_SYS_HANDLE" where
  "audio_set_options frame_count_option devicename_option alloc_ok handle optionName val =
     (case handle of
        None \<Rightarrow> Inr (AUDIO_RESULT_INVALID_ARG, None)
      | Some audioData \<Rightarrow>
          if frame_count_option = optionName then
            (case val of
               Some (IntValue i) \<Rightarrow>
                 Inr (AUDIO_RESULT_OK, Some (audioData\<lparr>inputFrameCnt := scast i\<rparr>))
             | Some (StringValue s) \<Rightarrow> Inl BadPointerCast
             | None \<Rightarrow> Inr (AUDIO_RESULT_OK, Some (audioData\<lparr>inputFrameCnt := 0\<rparr>)))
          else if devicename_option = optionName then
            (case val of
               Some (IntValue i) \<Rightarrow> Inl BadPointerCast
             | _ \<Rightarrow>
               (let s = (case val of Some (StringValue s) \<Rightarrow> s | _ \<Rightarrow> '''');
                    audioData' =
                      (case hDeviceName audioData of
                         None \<Rightarrow> audioData\<lparr>hDeviceName := STRING_construct alloc_ok s\<rparr>
                       | Some old \<Rightarrow>
                           audioData\<lparr>hDeviceName := Some (STRING_copy alloc_ok old s)\<rparr>)
                in if hDeviceName audioData' \<noteq> None
                   then Inr (AUDIO_RESULT_OK, Some audioData')
                   else Inr (AUDIO_RESULT_INVALID_ARG, Some audioData')))
          else Inr (AUDIO_RESULT_INVALID_ARG, Some audioData))"

section \<open>Observable effects\<close>

text \<open>
  Calls into the platform and into the application's callbacks are recorded, in order, in
  a list of effects.  A call carries the pointer it is made through, so that a call
  through a null pointer can be told from one through a registered pointer.
\<close>

datatype effect =
    InputStateCb ptr ptr AUDIO_STATE   \<comment> \<open>\<open>input_state_cb(user_inputctx, state)\<close>\<close>
  | GetService ptr
  | NewBytes "64 word" ptr           \<comment> \<open>\<open>new BYTE[n]\<close> has returned this pointer\<close>
  | Terminate                        \<comment> \<open>\<open>std::terminate\<close> ends the process\<close>
  | DeleteBytes ptr
  | WaitForMultipleObjects "HANDLE list"
  | GetNextPacketSize ptr
  | GetBufferAndCallBackClient ptr ptr ptr
  | ReleaseCaptureClient ptr
  | SpawnThread
  | JoinThread
  | SetEvent HANDLE
  | ClientStart ptr
  | ClientStop ptr
  | ClientInitialize ptr
  | ClientSetEventHandle ptr HANDLE
  | ClientRelease ptr
  | PromiseSetValue HRESULT

section \<open>Device activation\<close>

text \<open>
  What the platform answers during one activation: the result of
  \<open>GetActivateResult\<close> and its two outputs (the activation result and, through
  \<open>CopyTo\<close>, the audio client), and the results of \<open>Initialize\<close> and \<open>SetEventHandle\<close>.
\<close>

record activation =
  getActivateResult_hr :: HRESULT
  hrActivateResult :: HRESULT
  audioClient :: ptr
  initialize_hr :: HRESULT
  setEventHandle_hr :: HRESULT

text \<open>Modelled from the spec: the fixed PCM format (mono, 16 kHz, 16-bit, 2-byte block
  align) that the macros \<open>AUDIO_FORMAT_PCM\<close>, \<open>AUDIO_BITS\<close>, \<open>AUDIO_CHANNELS_MONO\<close>,
  \<open>AUDIO_SAMPLE_RATE\<close>, \<open>AUDIO_BYTE_RATE\<close> and \<open>AUDIO_BLOCK_ALIGN\<close> of
  \<open>audio_sys_win_base.h\<close> (not part of this file) stand for; line 135 asserts the block
  alignment.\<close>

definition pcm_format :: WAVEFORMATEX where
  "pcm_format =
     \<lparr> wFormatTag = 1, nChannels = 1, nSamplesPerSec = 16000, nAvgBytesPerSec = 32000,
       nBlockAlign = 2, wBitsPerSample = 16, cbSize = 0 \<rparr>"

text \<open>
  The \<open>Exit:\<close> block of \<open>ActivateCompleted\<close> (lines 147-155).  \<open>pAudioInputClient\<close> is a
  \<open>ComPtr\<close>; \<open>pAudioInputClient->Release()\<close> through a null one is a call through a null
  pointer.  \<open>set_value\<close> on a promise that holds a value throws.
\<close>

datatype activate_fault = ReleaseOnNullClient | PromiseAlreadySatisfied | FutureNeverReady

definition ActivateCompleted_Exit ::
  "HRESULT \<Rightarrow> WASAPICapture \<Rightarrow> effect list
     \<Rightarrow> activate_fault + HRESULT \<times> WASAPICapture \<times> effect list" where
  "ActivateCompleted_Exit hr cap effs =
     (if FAILED hr \<and> pAudioInputClient cap = NULL then Inl ReleaseOnNullClient
      else
        (let effs' = (if FAILED hr then effs @ [ClientRelease (pAudioInputClient cap)]
                      else effs)
         in if m_promise cap \<noteq> None then Inl PromiseAlreadySatisfied
            else Inr (S_OK, cap\<lparr>m_promise := Some hr\<rparr>, effs' @ [PromiseSetValue hr])))"

text \<open>
  \<open>WASAPICapture::ActivateCompleted\<close> (lines 109-156).  The macros \<open>EXIT_ON_ERROR\<close> and
  \<open>EXIT_ON_ERROR_IF\<close> are declared in \<open>audio_sys_win_base.h\<close>, not in this file; as their
  uses in this file require, \<open>EXIT_ON_ERROR(x)\<close> jumps to \<open>Exit\<close> when \<open>FAILED(x)\<close>, and
  \<open>EXIT_ON_ERROR_IF(e, c)\<close> assigns \<open>e\<close> to \<open>hr\<close> and jumps to \<open>Exit\<close> when \<open>c\<close> holds.
  At line 119 the macro tests \<open>hrActivateResult\<close>, and \<open>hr\<close> keeps the value of line 116.
\<close>

definition ActivateCompleted ::
  "activation \<Rightarrow> WASAPICapture \<Rightarrow> activate_fault + HRESULT \<times> WASAPICapture \<times> effect list" where
  "ActivateCompleted operation cap =
     (let hr = getActivateResult_hr operation in
      if FAILED hr then ActivateCompleted_Exit hr cap []
      else if FAILED (hrActivateResult operation) then ActivateCompleted_Exit hr cap []
      else
        (let cap1 = cap\<lparr>pAudioInputClient := audioClient operation\<rparr> in
         if pAudioInputClient cap1 = NULL then ActivateCompleted_Exit E_FAIL cap1 []
         else
           (let cap2 = cap1\<lparr>audioInFormat := pcm_format\<rparr>;
                hr1 = initialize_hr operation;
                effs1 = [ClientInitialize (pAudioInputClient cap2)]
            in if FAILED hr1 then ActivateCompleted_Exit hr1 cap2 effs1
               else ActivateCompleted_Exit (setEventHandle_hr operation) cap2
                      (effs1 @ [ClientSetEventHandle (pAudioInputClient cap2)
                                  (hBufferReady cap2)]))))"

section \<open>Session creation\<close>

text \<open>
  What the platform answers during \<open>audio_create\<close>: the two \<open>CreateEvent\<close> results of the
  \<open>WASAPICapture\<close> constructor, the indeterminate initial content of \<open>audioInFormat\<close>, the
  result of \<open>ActivateAudioInterfaceAsync\<close>, and the activation that completes it.
\<close>

record create_env =
  bufferReadyEvent :: HANDLE
  shouldExitEvent :: HANDLE
  initialFormat :: WAVEFORMATEX
  activateAsync_hr :: HRESULT
  completion :: activation

text \<open>The constructor (lines 80-96): when an event cannot be created both handles end
  up null.\<close>

definition new_WASAPICapture :: "create_env \<Rightarrow> WASAPICapture" where
  "new_WASAPICapture env =
     (let ok = (bufferReadyEvent env \<noteq> NULL \<and> shouldExitEvent env \<noteq> NULL)
      in \<lparr> pAudioInputClient = NULL,
           audioInFormat = initialFormat env,
           hBufferReady = (if ok then bufferReadyEvent env else NULL),
           hCaptureThreadShouldExit = (if ok then shouldExitEvent env else NULL),
           m_promise = None \<rparr>)"

text \<open>\<open>audio_input_create\<close> (lines 158-180): the completion handler runs while the caller
  waits on the future, and the caller then reads the promised value.\<close>

definition audio_input_create ::
  "create_env \<Rightarrow> AUDIO_SYS_DATA
     \<Rightarrow> activate_fault + HRESULT \<times> AUDIO_SYS_DATA \<times> effect list" where
  "audio_input_create env result =
     (let result1 = result\<lparr>spCapture := new_WASAPICapture env\<rparr>;
          hr = activateAsync_hr env
      in if FAILED hr then Inr (hr, result1, [])
         else
           (case ActivateCompleted (completion env) (spCapture result1) of
              Inl f \<Rightarrow> Inl f
            | Inr (ret, cap, effs) \<Rightarrow>
                (case m_promise cap of
                   None \<Rightarrow> Inl FutureNeverReady
                 | Some v \<Rightarrow> Inr (v, result1\<lparr>spCapture := cap\<rparr>, effs))))"

text \<open>The session after \<open>new\<close>, \<open>memset\<close> and the three assignments of lines 191-194.
  The zeroed \<open>spCapture\<close> is not read before line 166 replaces it with the capture
  object, which stands here from the beginning.\<close>

definition new_AUDIO_SYS_DATA :: "create_env \<Rightarrow> AUDIO_SYS_DATA" where
  "new_AUDIO_SYS_DATA env =
     \<lparr> hCaptureThread = NotJoinable,
       spCapture = new_WASAPICapture env,
       pAudioOutputDevice = NULL,
       hRenderThreadShouldExit = NULL,
       hRenderThreadDidExit = NULL,
       output_canceled = False,
       error_cb = NULL,
       output_state_cb = NULL,
       input_state_cb = NULL,
       audio_write_cb = NULL,
       user_write_ctx = NULL,
       user_outputctx = NULL,
       user_inputctx = NULL,
       user_errorctx = NULL,
       current_output_state = AUDIO_STATE_STOPPED,
       current_input_state = AUDIO_STATE_STOPPED,
       hDeviceName = None,
       inputFrameCnt = 160 \<rparr>"

text \<open>\<open>audio_create\<close> (lines 182-206): a null handle when activation failed.\<close>

definition audio_create ::
  "create_env \<Rightarrow> activate_fault + AUDIO_SYS_HANDLE \<times> effect list" where
  "audio_create env =
     (case audio_input_create env (new_AUDIO_SYS_DATA env) of
        Inl f \<Rightarrow> Inl f
      | Inr (hr, result, effs) \<Rightarrow>
          if FAILED hr then Inr (None, effs) else Inr (Some result, effs))"

section \<open>The capture thread\<close>

text \<open>
  The session together with the effects performed so far.  The capture thread and the
  controller both work on it.
\<close>

record world =
  sys :: AUDIO_SYS_DATA
  effects :: "effect list"

definition emit :: "effect list \<Rightarrow> world \<Rightarrow> world" where
  "emit es w = w\<lparr>effects := effects w @ es\<rparr>"

definition set_frame :: "capture_frame \<Rightarrow> world \<Rightarrow> world" where
  "set_frame fr w = w\<lparr>sys := (sys w)\<lparr>hCaptureThread := Joinable fr\<rparr>\<rparr>"

definition set_input_state :: "AUDIO_STATE \<Rightarrow> world \<Rightarrow> world" where
  "set_input_state st w = w\<lparr>sys := (sys w)\<lparr>current_input_state := st\<rparr>\<rparr>"

text \<open>The guarded call of the input-state callback (lines 315-318, 356-359, 374-377).\<close>

definition notify_input_state :: "AUDIO_STATE \<Rightarrow> world \<Rightarrow> world" where
  "notify_input_state st w =
     (if input_state_cb (sys w) \<noteq> NULL
      then emit [InputStateCb (input_state_cb (sys w)) (user_inputctx (sys w)) st] w
      else w)"

text \<open>Line 308.\<close>

definition allEvents :: "AUDIO_SYS_DATA \<Rightarrow> HANDLE list" where
  "allEvents pInput =
     [hCaptureThreadShouldExit (spCapture pInput), hBufferReady (spCapture pInput)]"

text \<open>
  What the platform answers to the capture thread.  \<open>GetService\<close> leaves a pointer in
  \<open>pCaptureClient\<close>.  The new-expression of line 326 is the plain one: it returns the
  buffer, never null, or, when the allocation fails, throws \<open>std::bad_alloc\<close>.
  \<open>GetBufferAndCallBackClient\<close> (declared in \<open>audio_sys_win_base.h\<close>, not in this file) takes
  \<open>audio_result\<close> by reference and either stores the frame-write callback's answer in it
  or leaves it as it is.
\<close>

datatype event =
    GetServiceReturns HRESULT ptr
  | NewReturns ptr
  | NewThrows
  | WaitReturns DWORD
  | GetNextPacketSizeReturns HRESULT "32 word"
  | GetBufferReturns HRESULT "int option"

text \<open>The \<open>Exit:\<close> block (lines 369-380).  \<open>SAFE_RELEASE\<close> releases a non-null pointer and
  nulls it.\<close>

definition capture_Exit :: "capture_frame \<Rightarrow> world \<Rightarrow> world" where
  "capture_Exit fr w =
     (let w1 = emit [DeleteBytes (pAudioData fr)] w;
          w2 = set_input_state AUDIO_STATE_STOPPED w1;
          w3 = notify_input_state AUDIO_STATE_STOPPED w2;
          w4 = (if pCaptureClient fr \<noteq> NULL
                then emit [ReleaseCaptureClient (pCaptureClient fr)] w3 else w3)
      in set_frame (fr\<lparr>pCaptureClient := NULL, pc := Returned\<rparr>) w4)"

text \<open>Line 334: the thread blocks in the wait.\<close>

definition enter_wait :: "capture_frame \<Rightarrow> world \<Rightarrow> world" where
  "enter_wait fr w =
     set_frame (fr\<lparr>pc := InWait\<rparr>) (emit [WaitForMultipleObjects (allEvents (sys w))] w)"

text \<open>Line 339: the head of the drain loop.\<close>

definition enter_drain :: "capture_frame \<Rightarrow> world \<Rightarrow> world" where
  "enter_drain fr w =
     set_frame (fr\<lparr>pc := InGetNextPacketSize\<rparr>)
       (emit [GetNextPacketSize (pCaptureClient fr)] w)"

text \<open>Lines 353-360: the application asked to stop.\<close>

definition on_audio_result :: "capture_frame \<Rightarrow> world \<Rightarrow> world" where
  "on_audio_result fr w =
     (if audio_result fr \<noteq> 0
      then notify_input_state AUDIO_STATE_STOPPED (set_input_state AUDIO_STATE_STOPPED w)
      else w)"

text \<open>
  The thread resumes when the call it is blocked in returns, and runs to its next call
  (or to its \<open>return\<close>).  An answer to a call the thread is not blocked in is not
  delivered, and neither is a null pointer as the result of the new-expression: the test
  of line 327 is here as it is written, and never succeeds.  No handler catches the
  \<open>std::bad_alloc\<close> of a failed allocation: it leaves the thread function, which does not
  reach its \<open>Exit:\<close> block, and \<open>std::terminate\<close> ends the process.
\<close>

fun capture_resume :: "capture_pc \<Rightarrow> event \<Rightarrow> capture_frame \<Rightarrow> world \<Rightarrow> world" where
  "capture_resume InGetService (GetServiceReturns hr p) fr w =
     (let fr1 = fr\<lparr>pCaptureClient := p\<rparr> in
      if FAILED hr then capture_Exit fr1 w
      else
        (let fr2 = fr1\<lparr>totalSize :=
                     inputFrameCnt (sys w)
                       * ucast (nBlockAlign (audioInFormat (spCapture (sys w))))\<rparr>
         in set_frame (fr2\<lparr>pc := InNew\<rparr>) w))"
| "capture_resume InNew (NewReturns p) fr w =
     (if p = NULL then w
      else
        (let fr1 = fr\<lparr>pAudioData := p\<rparr>;
             w1 = emit [NewBytes (totalSize fr) p] w
         in if pAudioData fr1 = NULL then capture_Exit fr1 w1 else enter_wait fr1 w1))"
| "capture_resume InNew NewThrows fr w =
     set_frame (fr\<lparr>pc := Terminated\<rparr>) (emit [Terminate] w)"
| "capture_resume InWait (WaitReturns waitResult) fr w =
     (if WAIT_OBJECT_0 + 1 = waitResult then enter_drain fr w else capture_Exit fr w)"
| "capture_resume InGetNextPacketSize (GetNextPacketSizeReturns hr n) fr w =
     (let fr1 = fr\<lparr>packetLength := n\<rparr> in
      if FAILED hr then capture_Exit fr1 w
      else if packetLength fr1 = 0 then enter_wait fr1 w
      else set_frame (fr1\<lparr>pc := InGetBuffer\<rparr>)
             (emit [GetBufferAndCallBackClient (pCaptureClient fr1)
                      (audio_write_cb (sys w)) (user_write_ctx (sys w))] w))"
| "capture_resume InGetBuffer (GetBufferReturns hr written) fr w =
     (let fr1 = fr\<lparr>audio_result :=
                  (case written of None \<Rightarrow> audio_result fr | Some v \<Rightarrow> v)\<rparr> in
      if FAILED hr then capture_Exit fr1 w
      else enter_drain fr1 (on_audio_result fr1 w))"
| "capture_resume _ _ fr w = w"

definition capture_step :: "event \<Rightarrow> world \<Rightarrow> world" where
  "capture_step ev w =
     (case hCaptureThread (sys w) of
        NotJoinable \<Rightarrow> w
      | Joinable fr \<Rightarrow> capture_resume (pc fr) ev fr w)"

fun capture_run :: "event list \<Rightarrow> world \<Rightarrow> world" where
  "capture_run [] w = w"
| "capture_run (ev # evs) w = capture_run evs (capture_step ev w)"

text \<open>
  The entry of \<open>captureThreadProc\<close> (lines 303-321), up to the call of \<open>GetService\<close>
  through the client pointer.
\<close>

definition initial_frame :: capture_frame where
  "initial_frame =
     \<lparr> pc = InGetService, pCaptureClient = NULL, packetLength = 0, audio_result = 0,
       pAudioData = NULL, totalSize = 0 \<rparr>"

definition capture_entry :: "world \<Rightarrow> world" where
  "capture_entry w =
     (let w1 = notify_input_state AUDIO_STATE_STARTING w;
          w2 = set_input_state AUDIO_STATE_RUNNING w1;
          client = pAudioInputClient (spCapture (sys w2))
      in if client = NULL then set_frame (initial_frame\<lparr>pc := Faulted\<rparr>) w2
         else set_frame initial_frame (emit [GetService client] w2))"

definition thread_returned :: "AUDIO_SYS_DATA \<Rightarrow> bool" where
  "thread_returned d =
     (case hCaptureThread d of NotJoinable \<Rightarrow> False | Joinable fr \<Rightarrow> pc fr = Returned)"

text \<open>
  \<open>captureThreadProc\<close> (lines 299-381) on the session \<open>pInput\<close>, against the answers
  \<open>evs\<close> of the platform: the session and the effects when the thread has returned,
  \<open>None\<close> when these answers leave it blocked (the wait has no timeout) or have
  terminated it.
\<close>

definition captureThreadProc :: "event list \<Rightarrow> AUDIO_SYS_DATA \<Rightarrow> world option" where
  "captureThreadProc evs pInput =
     (let w = capture_run evs (capture_entry \<lparr>sys = pInput, effects = []\<rparr>)
      in if thread_returned (sys w) then Some w else None)"

section \<open>Starting and stopping\<close>

text \<open>What the platform answers during \<open>audio_input_start\<close>: the native handle of the
  new thread and the result of the client's \<open>Start\<close>.\<close>

record start_env =
  native_handle :: ptr
  start_hr :: HRESULT

text \<open>
  Line 400.  Execution is sequential: the new thread runs as soon as it is created, up
  to its first platform call.
\<close>

definition spawn_capture_thread :: "start_env \<Rightarrow> AUDIO_SYS_DATA \<Rightarrow> world" where
  "spawn_capture_thread env audioData =
     (if native_handle env = NULL then \<lparr>sys = audioData, effects = [SpawnThread]\<rparr>
      else capture_entry \<lparr>sys = audioData, effects = [SpawnThread]\<rparr>)"

text \<open>\<open>audio_input_start\<close> (lines 384-410).\<close>

definition audio_input_start ::
  "start_env \<Rightarrow> AUDIO_SYS_HANDLE \<Rightarrow> AUDIO_RESULT \<times> AUDIO_SYS_HANDLE \<times> effect list" where
  "audio_input_start env handle =
     (case handle of
        None \<Rightarrow> (AUDIO_RESULT_INVALID_ARG, None, [])
      | Some audioData \<Rightarrow>
          if hBufferReady (spCapture audioData) = NULL
          then (AUDIO_RESULT_INVALID_ARG, Some audioData, [])
          else if audio_write_cb audioData = NULL
                  \<or> pAudioInputClient (spCapture audioData) = NULL
                  \<or> current_input_state audioData = AUDIO_STATE_RUNNING
          then (AUDIO_RESULT_INVALID_STATE, Some audioData, [])
          else if hCaptureThread audioData = NotJoinable \<and> native_handle env = NULL
          then (let w = spawn_capture_thread env audioData
                in (AUDIO_RESULT_ERROR, Some (sys w), effects w))
          else
            (let w = (if hCaptureThread audioData = NotJoinable
                      then spawn_capture_thread env audioData
                      else \<lparr>sys = audioData, effects = []\<rparr>);
                 hr = (if start_hr env \<noteq> S_OK then E_FAIL else start_hr env)
             in (if SUCCEEDED hr then AUDIO_RESULT_OK else AUDIO_RESULT_ERROR,
                 Some (sys w),
                 effects w @ [ClientStart (pAudioInputClient (spCapture audioData))])))"

text \<open>
  \<open>audio_input_stop\<close> (lines 412-441).  \<open>evs\<close> are the platform's answers to the capture
  thread while the caller is blocked in \<open>join\<close>; \<open>join\<close> returns once the thread has
  returned.
\<close>

definition audio_input_stop ::
  "event list \<Rightarrow> AUDIO_SYS_HANDLE
     \<Rightarrow> fault + AUDIO_RESULT \<times> AUDIO_SYS_HANDLE \<times> effect list" where
  "audio_input_stop evs handle =
     (case handle of
        None \<Rightarrow> Inr (AUDIO_RESULT_INVALID_ARG, None, [])
      | Some audioData \<Rightarrow>
          if current_input_state audioData \<noteq> AUDIO_STATE_RUNNING
          then Inr (AUDIO_RESULT_INVALID_STATE, Some audioData, [])
          else if pAudioInputClient (spCapture audioData) = NULL then Inl NullPointerCall
          else
            (let w = \<lparr>sys = audioData,
                      effects = [ClientStop (pAudioInputClient (spCapture audioData)),
                                 SetEvent (hCaptureThreadShouldExit (spCapture audioData))]\<rparr>
             in case hCaptureThread audioData of
                  NotJoinable \<Rightarrow> Inr (AUDIO_RESULT_OK, Some (sys w), effects w)
                | Joinable fr \<Rightarrow>
                    (let w1 = capture_run evs w
                     in if thread_returned (sys w1)
                        then Inr (AUDIO_RESULT_OK,
                                  Some ((sys w1)\<lparr>hCaptureThread := NotJoinable\<rparr>),
                                  effects w1 @ [JoinThread])
                        else Inl JoinNeverReturns)))"

text \<open>The world in which \<open>audio_input_stop\<close> calls \<open>join\<close>: the session \<open>audioData\<close>, with the
  effects of lines 424 and 427.\<close>

definition stop_world :: "AUDIO_SYS_DATA \<Rightarrow> world" where
  "stop_world audioData =
     \<lparr>sys = audioData,
      effects = [ClientStop (pAudioInputClient (spCapture audioData)),
                 SetEvent (hCaptureThreadShouldExit (spCapture audioData))]\<rparr>"

section \<open>Sequential executions\<close>

text \<open>
  A sequential execution of a session is a list of steps, one after the other: calls of
  the controller, and answers of the platform to the capture thread between two calls.
  A step that faults, or a \<open>join\<close> that does not return, ends the execution (\<open>None\<close>).
\<close>

datatype action =
    SetCallbacks ptr ptr ptr ptr ptr ptr ptr ptr
  | SetOption string string bool string "option_value option"
  | Start start_env
  | Stop "event list"
  | Platform event

fun perform :: "action \<Rightarrow> AUDIO_SYS_DATA \<Rightarrow> AUDIO_SYS_DATA option" where
  "perform (SetCallbacks ocb octx icb ictx wcb wctx ecb ectx) d =
     snd (audio_setcallbacks (Some d) ocb octx icb ictx wcb wctx ecb ectx)"
| "perform (SetOption fo dn alloc_ok name val) d =
     (case audio_set_options fo dn alloc_ok (Some d) name val of
        Inl f \<Rightarrow> None
      | Inr (r, h) \<Rightarrow> h)"
| "perform (Start env) d = fst (snd (audio_input_start env (Some d)))"
| "perform (Stop evs) d =
     (case audio_input_stop evs (Some d) of
        Inl f \<Rightarrow> None
      | Inr (r, h, es) \<Rightarrow> h)"
| "perform (Platform ev) d = Some (sys (capture_step ev \<lparr>sys = d, effects = []\<rparr>))"

fun perform_all :: "action list \<Rightarrow> AUDIO_SYS_DATA \<Rightarrow> AUDIO_SYS_DATA option" where
  "perform_all [] d = Some d"
| "perform_all (a # as) d =
     (case perform a d of None \<Rightarrow> None | Some d' \<Rightarrow> perform_all as d')"

text \<open>The sessions that \<open>audio_create\<close> and a sequential execution lead to.\<close>

definition reached :: "create_env \<Rightarrow> action list \<Rightarrow> AUDIO_SYS_DATA \<Rightarrow> bool" where
  "reached env acts d =
     (case audio_create env of
        Inl f \<Rightarrow> False
      | Inr (h, es) \<Rightarrow>
          (case h of None \<Rightarrow> False | Some d0 \<Rightarrow> perform_all acts d0 = Some d))"

text \<open>
  The answers of a platform that has nothing more to deliver, for a thread blocked in the
  given call: the pending calls succeed and the next packet size is zero, which brings
  the thread to its wait.
\<close>

fun quiet_answers :: "capture_pc \<Rightarrow> event list" where
  "quiet_answers InGetService = [GetServiceReturns S_OK 1, NewReturns 1]"
| "quiet_answers InNew = [NewReturns 1]"
| "quiet_answers InGetNextPacketSize = [GetNextPacketSizeReturns S_OK 0]"
| "quiet_answers InGetBuffer = [GetBufferReturns S_OK None, GetNextPacketSizeReturns S_OK 0]"
| "quiet_answers _ = []"

definition blocked_in_call :: "capture_pc \<Rightarrow> bool" where
  "blocked_in_call c \<longleftrightarrow>
     c = InGetService \<or> c = InNew \<or> c = InWait \<or> c = InGetNextPacketSize \<or> c = InGetBuffer"

section \<open>The platform's wait\<close>

text \<open>Modelled from the spec: the platform call \<open>WaitForMultipleObjects\<close> with
  \<open>bWaitAll = false\<close>, which is not code of this file.  Of the signalled handles of its
  array the one with the smallest index satisfies the wait ("index-0 wins ties per
  platform wait semantics").\<close>

fun first_signalled :: "HANDLE list \<Rightarrow> HANDLE set \<Rightarrow> nat option" where
  "first_signalled [] signalled = None"
| "first_signalled (h # hs) signalled =
     (if h \<in> signalled then Some 0
      else (case first_signalled hs signalled of None \<Rightarrow> None | Some i \<Rightarrow> Some (Suc i)))"

text \<open>Modelled from the spec: the result of that wait is \<open>WAIT_OBJECT_0\<close> plus the index
  of the handle that satisfied it; with no handle signalled the wait, which has no
  timeout, blocks (\<open>None\<close>).\<close>

definition wait_any :: "HANDLE list \<Rightarrow> HANDLE set \<Rightarrow> DWORD option" where
  "wait_any handles signalled =
     (case first_signalled handles signalled of
        None \<Rightarrow> None
      | Some i \<Rightarrow> Some (WAIT_OBJECT_0 + of_nat i))"

section \<open>Classifying effects\<close>

fun is_input_state_cb :: "effect \<Rightarrow> bool" where
  "is_input_state_cb (InputStateCb f c st) = True"
| "is_input_state_cb _ = False"

fun is_drain_call :: "effect \<Rightarrow> bool" where
  "is_drain_call (GetNextPacketSize c) = True"
| "is_drain_call (GetBufferAndCallBackClient c f x) = True"
| "is_drain_call _ = False"

text \<open>A world with the input-state callback slot emptied and its calls left out.\<close>

definition without_input_state_cb :: "world \<Rightarrow> world" where
  "without_input_state_cb w =
     \<lparr> sys = (sys w)\<lparr>input_state_cb := NULL\<rparr>,
       effects = filter (\<lambda>e. \<not> is_input_state_cb e) (effects w) \<rparr>"

section \<open>A concrete session\<close>

definition example_activation :: activation where
  "example_activation =
     \<lparr> getActivateResult_hr = S_OK, hrActivateResult = S_OK, audioClient = 0x5000,
       initialize_hr = S_OK, setEventHandle_hr = S_OK \<rparr>"

definition example_create_env :: create_env where
  "example_create_env =
     \<lparr> bufferReadyEvent = 0x64, shouldExitEvent = 0x68, initialFormat = pcm_format,
       activateAsync_hr = S_OK, completion = example_activation \<rparr>"

text \<open>The session that \<open>audio_create\<close> returns for these answers.\<close>

definition example_session :: AUDIO_SYS_DATA where
  "example_session =
     (new_AUDIO_SYS_DATA example_create_env)
       \<lparr>spCapture :=
          \<lparr> pAudioInputClient = 0x5000, audioInFormat = pcm_format, hBufferReady = 0x64,
            hCaptureThreadShouldExit = 0x68, m_promise = Some S_OK \<rparr>\<rparr>"

text \<open>The same session with an input-state and a frame-write callback registered.\<close>

definition example_registered :: AUDIO_SYS_DATA where
  "example_registered =
     example_session
       \<lparr> input_state_cb := 0x2000, user_inputctx := 0x2100,
         audio_write_cb := 0x3000, user_write_ctx := 0x3100 \<rparr>"

definition example_start_env :: start_env where
  "example_start_env = \<lparr> native_handle = 0x70, start_hr = S_OK \<rparr>"

definition example_running :: AUDIO_SYS_DATA where
  "example_running =
     example_registered
       \<lparr> hCaptureThread := Joinable initial_frame,
         current_input_state := AUDIO_STATE_RUNNING \<rparr>"

text \<open>The capture thread blocked in its wait, in the drain loop, and blocked in its wait
  after the application has asked to stop.\<close>

definition example_waiting :: AUDIO_SYS_DATA where
  "example_waiting =
     example_registered
       \<lparr> hCaptureThread :=
           Joinable \<lparr> pc = InWait, pCaptureClient = 0x6000, packetLength = 0,
                      audio_result = 0, pAudioData = 0x7000, totalSize = 320 \<rparr>,
         current_input_state := AUDIO_STATE_RUNNING \<rparr>"

definition example_draining :: AUDIO_SYS_DATA where
  "example_draining =
     example_registered
       \<lparr> hCaptureThread :=
           Joinable \<lparr> pc = InGetBuffer, pCaptureClient = 0x6000, packetLength = 160,
                      audio_result = 0, pAudioData = 0x7000, totalSize = 320 \<rparr>,
         current_input_state := AUDIO_STATE_RUNNING \<rparr>"

definition example_app_stopped :: AUDIO_SYS_DATA where
  "example_app_stopped =
     example_registered
       \<lparr> hCaptureThread :=
           Joinable \<lparr> pc = InWait, pCaptureClient = 0x6000, packetLength = 0,
                      audio_result = 1, pAudioData = 0x7000, totalSize = 320 \<rparr>,
         current_input_state := AUDIO_STATE_STOPPED \<rparr>"

definition example_start_actions :: "action list" where
  "example_start_actions =
     [SetCallbacks NULL NULL 0x2000 0x2100 0x3000 0x3100 NULL NULL,
      Start example_start_env,
      Platform (GetServiceReturns S_OK 0x6000),
      Platform (NewReturns 0x7000)]"

definition example_app_stop_actions :: "action list" where
  "example_app_stop_actions =
     example_start_actions @
     [Platform (WaitReturns 1),
      Platform (GetNextPacketSizeReturns S_OK 160),
      Platform (GetBufferReturns S_OK (Some 1)),
      Platform (GetNextPacketSizeReturns S_OK 0)]"

text \<open>A run in which the scratch buffer cannot be allocated.\<close>

definition example_bad_alloc_events :: "event list" where
  "example_bad_alloc_events = [GetServiceReturns S_OK 0x6000, NewThrows]"


section \<open>Invariants\<close>

text \<open>
  Of a run of the capture thread from the world \<open>w0\<close>, where it has not returned, to the
  world \<open>w\<close>: the callback slot is as it was; the effects have grown; the frame's buffer
  pointer is the one the new-expression has returned in between, or the one it was;
  until the thread has returned nothing has been deleted; once it has, the new effects
  end with the \<open>Exit:\<close> block, run once, and the persisted state is STOPPED.
\<close>

definition run_inv :: "world \<Rightarrow> world \<Rightarrow> bool" where
  "run_inv w0 w \<longleftrightarrow>
     input_state_cb (sys w) = input_state_cb (sys w0)
   \<and> user_inputctx (sys w) = user_inputctx (sys w0)
   \<and> (\<exists>fr0 fr new.
          hCaptureThread (sys w0) = Joinable fr0 \<and> hCaptureThread (sys w) = Joinable fr
        \<and> effects w = effects w0 @ new
        \<and> (\<forall>n p. NewBytes n p \<in> set new \<longrightarrow> pAudioData fr = p)
        \<and> ((\<forall>n p. NewBytes n p \<notin> set new) \<longrightarrow> pAudioData fr = pAudioData fr0)
        \<and> (pc fr = InGetService \<or> pc fr = InNew \<longrightarrow> (\<forall>n p. NewBytes n p \<notin> set new))
        \<and> (if pc fr = Returned
            then current_input_state (sys w) = AUDIO_STATE_STOPPED
               \<and> (\<exists>pre rel. new =
                     pre @ DeleteBytes (pAudioData fr)
                       # (if input_state_cb (sys w0) \<noteq> NULL
                          then [InputStateCb (input_state_cb (sys w0)) (user_inputctx (sys w0))
                                  AUDIO_STATE_STOPPED]
                          else [])
                       @ rel
                   \<and> (\<forall>p. DeleteBytes p \<notin> set pre)
                   \<and> (rel = [] \<or> (\<exists>c. rel = [ReleaseCaptureClient c])))
            else (\<forall>p. DeleteBytes p \<notin> set new)))"

text \<open>
  Of every session of a sequential execution: STARTING is never stored; a RUNNING
  session has a capture thread that has not returned; a session with a capture thread
  has a client.
\<close>

definition session_inv :: "AUDIO_SYS_DATA \<Rightarrow> bool" where
  "session_inv d \<longleftrightarrow>
     current_input_state d \<noteq> AUDIO_STATE_STARTING
   \<and> (current_input_state d = AUDIO_STATE_RUNNING \<longrightarrow>
        (\<exists>fr. hCaptureThread d = Joinable fr \<and> pc fr \<noteq> Returned \<and> pc fr \<noteq> Faulted))
   \<and> (hCaptureThread d \<noteq> NotJoinable \<longrightarrow> pAudioInputClient (spCapture d) \<noteq> NULL)"

section \<open>Basic facts\<close>

lemma FAILED_S_OK [simp]: "\<not> FAILED S_OK"
  by (simp add: FAILED_def S_OK_def)

lemma FAILED_E_FAIL [simp]: "FAILED E_FAIL"
  by (simp add: FAILED_def E_FAIL_def)

lemma FAILED_E_ACCESSDENIED [simp]: "FAILED E_ACCESSDENIED"
  by (simp add: FAILED_def E_ACCESSDENIED_def)

lemma SUCCEEDED_iff: "SUCCEEDED hr \<longleftrightarrow> \<not> FAILED hr"
  by (auto simp: SUCCEEDED_def FAILED_def)

lemma emit_simps [simp]:
  "sys (emit es w) = sys w"
  "effects (emit es w) = effects w @ es"
  by (simp_all add: emit_def)

lemma set_frame_simps [simp]:
  "sys (set_frame fr w) = (sys w)\<lparr>hCaptureThread := Joinable fr\<rparr>"
  "effects (set_frame fr w) = effects w"
  by (simp_all add: set_frame_def)

lemma set_input_state_simps [simp]:
  "sys (set_input_state st w) = (sys w)\<lparr>current_input_state := st\<rparr>"
  "effects (set_input_state st w) = effects w"
  by (simp_all add: set_input_state_def)

lemma notify_input_state_simps [simp]:
  "sys (notify_input_state st w) = sys w"
  "effects (notify_input_state st w) =
     effects w @ (if input_state_cb (sys w) \<noteq> NULL
                  then [InputStateCb (input_state_cb (sys w)) (user_inputctx (sys w)) st]
                  else [])"
  by (simp_all add: notify_input_state_def)

lemma capture_Exit_sys:
  "sys (capture_Exit fr w) =
     (sys w)\<lparr>current_input_state := AUDIO_STATE_STOPPED,
             hCaptureThread := Joinable (fr\<lparr>pCaptureClient := NULL, pc := Returned\<rparr>)\<rparr>"
  by (simp add: capture_Exit_def Let_def)

lemma capture_Exit_effects:
  "effects (capture_Exit fr w) =
     effects w @ DeleteBytes (pAudioData fr)
       # (if input_state_cb (sys w) \<noteq> NULL
          then [InputStateCb (input_state_cb (sys w)) (user_inputctx (sys w))
                  AUDIO_STATE_STOPPED]
          else [])
       @ (if pCaptureClient fr \<noteq> NULL then [ReleaseCaptureClient (pCaptureClient fr)]
          else [])"
  by (simp add: capture_Exit_def Let_def)

lemma enter_wait_simps [simp]:
  "sys (enter_wait fr w) = (sys w)\<lparr>hCaptureThread := Joinable (fr\<lparr>pc := InWait\<rparr>)\<rparr>"
  "effects (enter_wait fr w) = effects w @ [WaitForMultipleObjects (allEvents (sys w))]"
  by (simp_all add: enter_wait_def)

lemma enter_drain_simps [simp]:
  "sys (enter_drain fr w)
     = (sys w)\<lparr>hCaptureThread := Joinable (fr\<lparr>pc := InGetNextPacketSize\<rparr>)\<rparr>"
  "effects (enter_drain fr w) = effects w @ [GetNextPacketSize (pCaptureClient fr)]"
  by (simp_all add: enter_drain_def)

lemma on_audio_result_simps [simp]:
  "sys (on_audio_result fr w) =
     (if audio_result fr \<noteq> 0 then (sys w)\<lparr>current_input_state := AUDIO_STATE_STOPPED\<rparr>
      else sys w)"
  "effects (on_audio_result fr w) =
     effects w @ (if audio_result fr \<noteq> 0 \<and> input_state_cb (sys w) \<noteq> NULL
                  then [InputStateCb (input_state_cb (sys w)) (user_inputctx (sys w))
                          AUDIO_STATE_STOPPED]
                  else [])"
  by (simp_all add: on_audio_result_def)


lemmas example_defs =
  example_registered_def example_session_def example_create_env_def example_activation_def
  example_start_env_def new_AUDIO_SYS_DATA_def new_WASAPICapture_def pcm_format_def

lemmas capture_defs =
  capture_step_def capture_entry_def capture_Exit_def enter_wait_def enter_drain_def
  on_audio_result_def notify_input_state_def set_input_state_def set_frame_def emit_def
  initial_frame_def allEvents_def thread_returned_def WAIT_OBJECT_0_def Let_def

subsection \<open>The capture thread once it has returned\<close>

lemma capture_run_returned:
  "thread_returned (sys v) \<Longrightarrow> capture_run evs v = v"
  by (induction evs) (auto simp: thread_returned_def capture_step_def split: thread.splits)

lemma capture_run_append:
  "capture_run (xs @ ys) w = capture_run ys (capture_run xs w)"
  by (induction xs arbitrary: w) simp_all

lemma capture_Exit_returned: "thread_returned (sys (capture_Exit fr w))"
  by (simp add: capture_Exit_sys thread_returned_def)

lemma capture_step_effects:
  "\<exists>new. effects (capture_step ev w) = effects w @ new"
proof (cases "hCaptureThread (sys w)")
  case NotJoinable
  then show ?thesis by (simp add: capture_step_def)
next
  case (Joinable fr)
  then show ?thesis
    by (cases "pc fr"; cases ev) (simp_all add: capture_step_def Let_def capture_Exit_effects)
qed

lemma capture_run_effects:
  "\<exists>new. effects (capture_run evs w) = effects w @ new"
proof (induction evs arbitrary: w)
  case Nil
  then show ?case by simp
next
  case (Cons ev evs)
  obtain n1 where n1: "effects (capture_step ev w) = effects w @ n1"
    using capture_step_effects by blast
  obtain n2 where
    "effects (capture_run evs (capture_step ev w)) = effects (capture_step ev w) @ n2"
    using Cons.IH by blast
  with n1 show ?case by simp
qed

subsection \<open>The run invariant\<close>

lemma run_inv_refl:
  assumes "hCaptureThread (sys w) = Joinable fr" and "pc fr \<noteq> Returned"
  shows "run_inv w w"
  using assms by (simp add: run_inv_def)

lemma run_inv_capture_Exit:
  assumes "input_state_cb (sys w) = input_state_cb (sys w0)"
    and "user_inputctx (sys w) = user_inputctx (sys w0)"
    and "hCaptureThread (sys w0) = Joinable fr0"
    and "effects w = effects w0 @ new"
    and "\<forall>n p. NewBytes n p \<in> set new \<longrightarrow> pAudioData fr = p"
    and "(\<forall>n p. NewBytes n p \<notin> set new) \<longrightarrow> pAudioData fr = pAudioData fr0"
    and "\<forall>p. DeleteBytes p \<notin> set new"
  shows "run_inv w0 (capture_Exit fr w)"
proof -
  let ?rel = "if pCaptureClient fr \<noteq> NULL then [ReleaseCaptureClient (pCaptureClient fr)]
              else []"
  let ?cb = "if input_state_cb (sys w0) \<noteq> NULL
             then [InputStateCb (input_state_cb (sys w0)) (user_inputctx (sys w0))
                     AUDIO_STATE_STOPPED]
             else []"
  let ?new = "new @ DeleteBytes (pAudioData fr) # ?cb @ ?rel"
  have e: "effects (capture_Exit fr w) = effects w0 @ ?new"
    using assms(1,2,4) by (simp add: capture_Exit_effects)
  have nb: "\<And>n p. NewBytes n p \<in> set ?new \<longleftrightarrow> NewBytes n p \<in> set new"
    by auto
  have r: "?rel = [] \<or> (\<exists>c. ?rel = [ReleaseCaptureClient c])"
    by simp
  have x: "\<exists>pre rel. ?new = pre @ DeleteBytes (pAudioData fr) # ?cb @ rel
      \<and> (\<forall>p. DeleteBytes p \<notin> set pre)
      \<and> (rel = [] \<or> (\<exists>c. rel = [ReleaseCaptureClient c]))"
    using assms(7) r by blast
  show ?thesis
    unfolding run_inv_def
    apply (simp only: capture_Exit_sys e)
    apply (rule conjI, simp add: assms(1))
    apply (rule conjI, simp add: assms(2))
    apply (rule exI [of _ fr0])
    apply (rule exI [of _ "fr\<lparr>pCaptureClient := NULL, pc := Returned\<rparr>"])
    apply (rule exI [of _ ?new])
    apply (simp only: nb)
    using assms(3,5,6) x
    apply simp
    done
qed

lemma run_inv_step:
  assumes "run_inv w0 w"
  shows "run_inv w0 (capture_step ev w)"
proof -
  from assms have cb: "input_state_cb (sys w) = input_state_cb (sys w0)"
            "user_inputctx (sys w) = user_inputctx (sys w0)"
    unfolding run_inv_def by blast+
  from assms obtain fr0 fr new where
    thr0: "hCaptureThread (sys w0) = Joinable fr0"
    and fr: "hCaptureThread (sys w) = Joinable fr"
    and eff: "effects w = effects w0 @ new"
    and nb1: "\<forall>n p. NewBytes n p \<in> set new \<longrightarrow> pAudioData fr = p"
    and nb2: "(\<forall>n p. NewBytes n p \<notin> set new) \<longrightarrow> pAudioData fr = pAudioData fr0"
    and nb3: "pc fr = InGetService \<or> pc fr = InNew \<longrightarrow> (\<forall>n p. NewBytes n p \<notin> set new)"
    and ifp: "if pc fr = Returned
            then current_input_state (sys w) = AUDIO_STATE_STOPPED
               \<and> (\<exists>pre rel. new =
                     pre @ DeleteBytes (pAudioData fr)
                       # (if input_state_cb (sys w0) \<noteq> NULL
                          then [InputStateCb (input_state_cb (sys w0)) (user_inputctx (sys w0))
                                  AUDIO_STATE_STOPPED]
                          else [])
                       @ rel
                   \<and> (\<forall>p. DeleteBytes p \<notin> set pre)
                   \<and> (rel = [] \<or> (\<exists>c. rel = [ReleaseCaptureClient c])))
            else (\<forall>p. DeleteBytes p \<notin> set new)"
    unfolding run_inv_def by blast
  from ifp have ret: "pc fr \<noteq> Returned \<longrightarrow> (\<forall>p. DeleteBytes p \<notin> set new)"
    by (simp split: if_splits)
  show ?thesis
  proof (cases "pc fr = Returned")
    case True
    then show ?thesis using assms fr by (simp add: capture_step_def)
  next
    case False
    with ret have nd: "\<forall>p. DeleteBytes p \<notin> set new" by simp
    have ex: "run_inv w0 (capture_Exit fr' w)"
      if "pAudioData fr' = pAudioData fr" for fr'
      using run_inv_capture_Exit [OF cb thr0 eff _ _ nd, of fr'] nb1 nb2 that by simp
    have live: "run_inv w0 w'"
      if "input_state_cb (sys w') = input_state_cb (sys w)"
        and "user_inputctx (sys w') = user_inputctx (sys w)"
        and "hCaptureThread (sys w') = Joinable fr'"
        and "effects w' = effects w @ add"
        and "\<forall>n p. NewBytes n p \<notin> set add" and "\<forall>p. DeleteBytes p \<notin> set add"
        and "pAudioData fr' = pAudioData fr" and "pc fr' \<noteq> Returned"
        and "pc fr' \<noteq> InGetService" and "pc fr' \<noteq> InNew \<or> pc fr = InGetService"
      for w' fr' add
      unfolding run_inv_def
      apply (rule conjI, simp add: that cb)
      apply (rule conjI, simp add: that cb)
      apply (rule exI [of _ fr0], rule exI [of _ fr'], rule exI [of _ "new @ add"])
      using that thr0 eff nb1 nb2 nb3 nd
      apply auto
      done
    show ?thesis
    proof (cases "pc fr")
      case InGetService
      then show ?thesis using fr assms
        by (cases ev) (auto simp: capture_step_def Let_def intro!: ex live [where add = "[]"])
    next
      case InNew
      show ?thesis
      proof (cases ev)
        case (NewReturns p)
        show ?thesis
        proof (cases "p = NULL")
          case True
          then show ?thesis using fr InNew NewReturns assms by (simp add: capture_step_def)
        next
          case False
          from InNew nb3 have none: "\<forall>n p. NewBytes n p \<notin> set new" by simp
          have "run_inv w0 (enter_wait (fr\<lparr>pAudioData := p\<rparr>)
                              (emit [NewBytes (totalSize fr) p] w))"
            unfolding run_inv_def
            apply (rule conjI, simp add: cb)
            apply (rule conjI, simp add: cb)
            apply (rule exI [of _ fr0])
            apply (rule exI [of _ "fr\<lparr>pAudioData := p, pc := InWait\<rparr>"])
            apply (rule exI [of _ "new @ [NewBytes (totalSize fr) p,
                                          WaitForMultipleObjects (allEvents (sys w))]"])
            using thr0 eff none nd
            apply auto
            done
          then show ?thesis using fr InNew NewReturns False
            by (simp add: capture_step_def Let_def)
        qed
      next
        case NewThrows
        then show ?thesis using fr InNew
          by (auto simp: capture_step_def intro!: live [where add = "[Terminate]"])
      qed (use fr InNew assms in \<open>simp_all add: capture_step_def\<close>)
    next
      case InWait
      then show ?thesis using fr assms
        by (cases ev)
           (auto simp: capture_step_def Let_def
              intro!: ex live [where add = "[GetNextPacketSize (pCaptureClient fr)]"])
    next
      case InGetNextPacketSize
      show ?thesis
      proof (cases ev)
        case (GetNextPacketSizeReturns hr n)
        let ?fr1 = "fr\<lparr>packetLength := n\<rparr>"
        consider "FAILED hr" | "\<not> FAILED hr" "n = 0" | "\<not> FAILED hr" "n \<noteq> 0" by blast
        then show ?thesis
        proof cases
          case 1
          then show ?thesis using fr InGetNextPacketSize GetNextPacketSizeReturns
            by (simp add: capture_step_def Let_def ex)
        next
          case 2
          have "run_inv w0 (enter_wait ?fr1 w)"
            by (rule live [where add = "[WaitForMultipleObjects (allEvents (sys w))]"
                  and fr' = "?fr1\<lparr>pc := InWait\<rparr>"]) auto
          then show ?thesis using 2 fr InGetNextPacketSize GetNextPacketSizeReturns
            by (simp add: capture_step_def Let_def)
        next
          case 3
          have "run_inv w0 (set_frame (?fr1\<lparr>pc := InGetBuffer\<rparr>)
                  (emit [GetBufferAndCallBackClient (pCaptureClient ?fr1)
                           (audio_write_cb (sys w)) (user_write_ctx (sys w))] w))"
            by (rule live [where add = "[GetBufferAndCallBackClient (pCaptureClient ?fr1)
                           (audio_write_cb (sys w)) (user_write_ctx (sys w))]"
                  and fr' = "?fr1\<lparr>pc := InGetBuffer\<rparr>"]) auto
          then show ?thesis using 3 fr InGetNextPacketSize GetNextPacketSizeReturns
            by (simp add: capture_step_def Let_def)
        qed
      qed (use fr InGetNextPacketSize assms in \<open>simp_all add: capture_step_def\<close>)
    next
      case InGetBuffer
      show ?thesis
      proof (cases ev)
        case (GetBufferReturns hr written)
        let ?fr1 = "fr\<lparr>audio_result := (case written of None \<Rightarrow> audio_result fr | Some v \<Rightarrow> v)\<rparr>"
        show ?thesis
        proof (cases "FAILED hr")
          case True
          then show ?thesis using fr InGetBuffer GetBufferReturns
            by (simp add: capture_step_def Let_def ex)
        next
          case False
          have "run_inv w0 (enter_drain ?fr1 (on_audio_result ?fr1 w))"
            by (rule live [where add = "(if audio_result ?fr1 \<noteq> 0 \<and> input_state_cb (sys w) \<noteq> NULL
                  then [InputStateCb (input_state_cb (sys w)) (user_inputctx (sys w))
                          AUDIO_STATE_STOPPED]
                  else []) @ [GetNextPacketSize (pCaptureClient fr)]"
                  and fr' = "?fr1\<lparr>pc := InGetNextPacketSize\<rparr>"])
               auto
          then show ?thesis using fr InGetBuffer GetBufferReturns False
            by (simp add: capture_step_def Let_def)
        qed
      qed (use fr InGetBuffer assms in \<open>simp_all add: capture_step_def\<close>)
    next
      case Returned
      with False show ?thesis by simp
    next
      case Faulted
      then show ?thesis using fr assms by (cases ev) (simp_all add: capture_step_def)
    next
      case Terminated
      then show ?thesis using fr assms by (cases ev) (simp_all add: capture_step_def)
    qed
  qed
qed

lemma run_inv_run:
  "run_inv w0 w \<Longrightarrow> run_inv w0 (capture_run evs w)"
  by (induction evs arbitrary: w) (simp_all add: run_inv_step)

lemma run_returned_exit_block:
  assumes "hCaptureThread (sys w0) = Joinable fr0" and "pc fr0 \<noteq> Returned"
    and "thread_returned (sys (capture_run evs w0))"
  shows "current_input_state (sys (capture_run evs w0)) = AUDIO_STATE_STOPPED
       \<and> (\<exists>fr pre rel.
             hCaptureThread (sys (capture_run evs w0)) = Joinable fr \<and> pc fr = Returned
           \<and> effects (capture_run evs w0) =
               effects w0 @ pre @ DeleteBytes (pAudioData fr)
                 # (if input_state_cb (sys w0) \<noteq> NULL
                    then [InputStateCb (input_state_cb (sys w0)) (user_inputctx (sys w0))
                            AUDIO_STATE_STOPPED]
                    else [])
                 @ rel
           \<and> (\<forall>p. DeleteBytes p \<notin> set pre)
           \<and> (rel = [] \<or> (\<exists>c. rel = [ReleaseCaptureClient c]))
           \<and> (\<forall>n p. NewBytes n p \<in> set pre \<longrightarrow> pAudioData fr = p)
           \<and> ((\<forall>n p. NewBytes n p \<notin> set pre) \<longrightarrow> pAudioData fr = pAudioData fr0))"
proof -
  let ?W = "capture_run evs w0"
  let ?cb = "if input_state_cb (sys w0) \<noteq> NULL
             then [InputStateCb (input_state_cb (sys w0)) (user_inputctx (sys w0))
                     AUDIO_STATE_STOPPED]
             else []"
  have inv: "run_inv w0 ?W"
    by (rule run_inv_run [OF run_inv_refl [OF assms(1,2)]])
  then obtain fr0' fr new where
    thr0: "hCaptureThread (sys w0) = Joinable fr0'"
    and fr: "hCaptureThread (sys ?W) = Joinable fr"
    and eff: "effects ?W = effects w0 @ new"
    and nb1: "\<forall>n p. NewBytes n p \<in> set new \<longrightarrow> pAudioData fr = p"
    and nb2: "(\<forall>n p. NewBytes n p \<notin> set new) \<longrightarrow> pAudioData fr = pAudioData fr0'"
    and ifp: "if pc fr = Returned
            then current_input_state (sys ?W) = AUDIO_STATE_STOPPED
               \<and> (\<exists>pre rel. new = pre @ DeleteBytes (pAudioData fr) # ?cb @ rel
                   \<and> (\<forall>p. DeleteBytes p \<notin> set pre)
                   \<and> (rel = [] \<or> (\<exists>c. rel = [ReleaseCaptureClient c])))
            else (\<forall>p. DeleteBytes p \<notin> set new)"
    unfolding run_inv_def by blast
  from thr0 assms(1) have same: "fr0' = fr0" by simp
  from assms(3) fr have ret: "pc fr = Returned"
    by (simp add: thread_returned_def)
  with ifp obtain pre rel where st: "current_input_state (sys ?W) = AUDIO_STATE_STOPPED"
    and new: "new = pre @ DeleteBytes (pAudioData fr) # ?cb @ rel"
    and nd: "\<forall>p. DeleteBytes p \<notin> set pre"
    and rel: "rel = [] \<or> (\<exists>c. rel = [ReleaseCaptureClient c])"
    by auto
  have mem: "\<And>n p. NewBytes n p \<in> set new \<longleftrightarrow> NewBytes n p \<in> set pre"
    using rel by (auto simp: new)
  from nb1 nb2 have t1: "\<forall>n p. NewBytes n p \<in> set pre \<longrightarrow> pAudioData fr = p"
    and t2: "(\<forall>n p. NewBytes n p \<notin> set pre) \<longrightarrow> pAudioData fr = pAudioData fr0"
    by (simp_all add: mem same)
  have "effects ?W = effects w0 @ pre @ DeleteBytes (pAudioData fr) # ?cb @ rel"
    by (simp add: eff new)
  with st fr ret nd rel t1 t2 show ?thesis by blast
qed

lemma capture_run_reaches_wait_returns:
  assumes "hCaptureThread (sys (capture_run evs w)) = Joinable fr" and "pc fr = InWait"
  shows "thread_returned (sys (capture_run (evs @ WaitReturns WAIT_OBJECT_0 # evs') w))"
proof -
  have "capture_step (WaitReturns WAIT_OBJECT_0) (capture_run evs w)
          = capture_Exit fr (capture_run evs w)"
    using assms by (simp add: capture_step_def WAIT_OBJECT_0_def)
  then show ?thesis
    by (simp add: capture_run_append capture_run_returned capture_Exit_returned)
qed

lemma quiet_answers_reach_wait:
  assumes "hCaptureThread (sys w) = Joinable fr" and "blocked_in_call (pc fr)"
  shows "\<exists>fr'. hCaptureThread (sys (capture_run (quiet_answers (pc fr)) w)) = Joinable fr'
               \<and> pc fr' = InWait"
  using assms
  by (auto simp: blocked_in_call_def capture_step_def Let_def)

lemma stop_world_simps [simp]:
  "sys (stop_world d) = d"
  "effects (stop_world d) = [ClientStop (pAudioInputClient (spCapture d)),
                             SetEvent (hCaptureThreadShouldExit (spCapture d))]"
  by (simp_all add: stop_world_def)

lemma audio_input_stop_join:
  assumes "current_input_state d = AUDIO_STATE_RUNNING"
    and "pAudioInputClient (spCapture d) \<noteq> NULL"
    and "hCaptureThread d = Joinable fr"
  shows "audio_input_stop evs (Some d) =
           (if thread_returned (sys (capture_run evs (stop_world d)))
            then Inr (AUDIO_RESULT_OK,
                      Some ((sys (capture_run evs (stop_world d)))
                               \<lparr>hCaptureThread := NotJoinable\<rparr>),
                      effects (capture_run evs (stop_world d)) @ [JoinThread])
            else Inl JoinNeverReturns)"
  using assms by (simp add: audio_input_stop_def stop_world_def Let_def)

subsection \<open>Emptying the input-state callback slot\<close>

lemma without_input_state_cb_simps [simp]:
  "sys (without_input_state_cb w) = (sys w)\<lparr>input_state_cb := NULL\<rparr>"
  "effects (without_input_state_cb w) = filter (\<lambda>e. \<not> is_input_state_cb e) (effects w)"
  by (simp_all add: without_input_state_cb_def)









subsection \<open>The session invariant\<close>

lemma session_inv_step:
  assumes "session_inv (sys w)"
  shows "session_inv (sys (capture_step ev w))"
proof (cases "hCaptureThread (sys w)")
  case NotJoinable
  then show ?thesis using assms by (simp add: capture_step_def)
next
  case (Joinable fr)
  then show ?thesis
    using assms
    by (cases "pc fr"; cases ev)
       (auto simp: capture_step_def Let_def capture_Exit_sys session_inv_def)
qed

lemma session_inv_run:
  "session_inv (sys w) \<Longrightarrow> session_inv (sys (capture_run evs w))"
  by (induction evs arbitrary: w) (simp_all add: session_inv_step)

lemma session_inv_returned:
  "session_inv d \<Longrightarrow> thread_returned d \<Longrightarrow> current_input_state d = AUDIO_STATE_STOPPED"
  by (cases "current_input_state d")
     (auto simp: session_inv_def thread_returned_def split: thread.splits)

lemma session_inv_create:
  assumes "audio_create env = Inr (Some d, es)"
  shows "session_inv d \<and> current_input_state d = AUDIO_STATE_STOPPED
         \<and> hCaptureThread d = NotJoinable"
  using assms
  by (auto simp: audio_create_def audio_input_create_def new_AUDIO_SYS_DATA_def
        session_inv_def Let_def split: sum.splits if_splits option.splits prod.splits)

lemma session_inv_entry:
  assumes "pAudioInputClient (spCapture (sys w)) \<noteq> NULL"
  shows "session_inv (sys (capture_entry w))
       \<and> current_input_state (sys (capture_entry w)) = AUDIO_STATE_RUNNING"
  using assms by (simp add: capture_entry_def Let_def session_inv_def initial_frame_def)

lemma session_inv_start:
  assumes "session_inv d" and "audio_input_start env (Some d) = (r, Some d', es)"
  shows "session_inv d'"
  using assms session_inv_entry [of "\<lparr>sys = d, effects = [SpawnThread]\<rparr>"]
  by (auto simp: audio_input_start_def spawn_capture_thread_def Let_def split: if_splits)

lemma session_inv_stop:
  assumes "session_inv d" and "audio_input_stop evs (Some d) = Inr (r, Some d', es)"
  shows "session_inv d'
       \<and> (r = AUDIO_RESULT_OK \<longrightarrow>
            current_input_state d' = AUDIO_STATE_STOPPED \<and> hCaptureThread d' = NotJoinable)"
proof (cases "current_input_state d = AUDIO_STATE_RUNNING")
  case False
  then show ?thesis using assms by (auto simp: audio_input_stop_def)
next
  case True
  with assms(1) obtain fr where fr: "hCaptureThread d = Joinable fr"
    by (auto simp: session_inv_def)
  let ?w = "capture_run evs
              \<lparr>sys = d, effects = [ClientStop (pAudioInputClient (spCapture d)),
                                    SetEvent (hCaptureThreadShouldExit (spCapture d))]\<rparr>"
  from assms(2) True fr have ret: "thread_returned (sys ?w)"
    and d': "d' = (sys ?w)\<lparr>hCaptureThread := NotJoinable\<rparr>" and r: "r = AUDIO_RESULT_OK"
    by (auto simp: audio_input_stop_def Let_def split: if_splits)
  have inv: "session_inv (sys ?w)"
    by (rule session_inv_run) (simp add: assms(1))
  from session_inv_returned [OF inv ret] inv show ?thesis
    by (simp add: d' r session_inv_def)
qed

lemma session_inv_perform:
  assumes "session_inv d" and "perform a d = Some d'"
  shows "session_inv d'"
proof (cases a)
  case (SetCallbacks ocb octx icb ictx wcb wctx ecb ectx)
  then show ?thesis using assms
    by (auto simp: audio_setcallbacks_def session_inv_def split: if_splits)
next
  case (SetOption fo dn ok name val)
  then show ?thesis using assms
    by (auto simp: audio_set_options_def session_inv_def Let_def
          split: if_splits option.splits option_value.splits sum.splits)
next
  case (Start env)
  with assms(2) have "audio_input_start env (Some d)
      = (fst (audio_input_start env (Some d)), Some d',
         snd (snd (audio_input_start env (Some d))))"
    by (cases "audio_input_start env (Some d)") auto
  from session_inv_start [OF assms(1) this] show ?thesis .
next
  case (Stop evs)
  with assms(2) obtain r es where "audio_input_stop evs (Some d) = Inr (r, Some d', es)"
    by (auto split: sum.splits)
  from session_inv_stop [OF assms(1) this] show ?thesis by simp
next
  case (Platform ev)
  with assms show ?thesis
    using session_inv_step [of "\<lparr>sys = d, effects = []\<rparr>" ev] by auto
qed

lemma session_inv_perform_all:
  "session_inv d \<Longrightarrow> perform_all acts d = Some d' \<Longrightarrow> session_inv d'"
  by (induction acts arbitrary: d) (auto split: option.splits dest: session_inv_perform)

lemma reached_cases:
  assumes "reached env acts d"
  obtains d0 es where "audio_create env = Inr (Some d0, es)" "perform_all acts d0 = Some d"
  using assms by (auto simp: reached_def split: sum.splits option.splits)

lemma reached_inv:
  assumes "reached env acts d"
  shows "session_inv d"
proof -
  from assms obtain d0 es where c: "audio_create env = Inr (Some d0, es)"
    and p: "perform_all acts d0 = Some d"
    by (rule reached_cases)
  from session_inv_create [OF c] have "session_inv d0" by simp
  from session_inv_perform_all [OF this p] show ?thesis .
qed

lemma perform_all_append:
  "perform_all (xs @ ys) d =
     (case perform_all xs d of None \<Rightarrow> None | Some d' \<Rightarrow> perform_all ys d')"
  by (induction xs arbitrary: d) (auto split: option.splits)

lemma reached_extend:
  assumes "reached env acts d" and "perform_all acts2 d = Some d'"
  shows "reached env (acts @ acts2) d'"
proof -
  from assms(1) obtain d0 es where c: "audio_create env = Inr (Some d0, es)"
    and p: "perform_all acts d0 = Some d"
    by (rule reached_cases)
  from p assms(2) have "perform_all (acts @ acts2) d0 = Some d'"
    by (simp add: perform_all_append)
  with c show ?thesis by (simp add: reached_def)
qed

lemma start_spawned_running:
  assumes "hCaptureThread d = NotJoinable"
    and "audio_input_start senv (Some d) = (AUDIO_RESULT_OK, Some d', es)"
  shows "current_input_state d' = AUDIO_STATE_RUNNING"
  using assms
  by (auto simp: audio_input_start_def spawn_capture_thread_def capture_entry_def Let_def
        split: if_splits)

lemma reached_stop_stopped:
  assumes "reached env acts d"
    and "audio_input_stop evs (Some d) = Inr (AUDIO_RESULT_OK, Some d', es)"
  shows "current_input_state d' = AUDIO_STATE_STOPPED \<and> hCaptureThread d' = NotJoinable"
  using session_inv_stop [OF reached_inv [OF assms(1)] assms(2)] by simp

subsection \<open>The concrete session\<close>

lemma audio_create_example:
  "audio_create example_create_env =
     Inr (Some example_session,
          [ClientInitialize 0x5000, ClientSetEventHandle 0x5000 0x64, PromiseSetValue S_OK])"
  by (simp add: audio_create_def audio_input_create_def ActivateCompleted_def
      ActivateCompleted_Exit_def example_create_env_def example_activation_def
      example_session_def new_AUDIO_SYS_DATA_def new_WASAPICapture_def Let_def)

lemma perform_example_start:
  "perform_all example_start_actions example_session = Some example_waiting"
  by (simp add: example_start_actions_def example_waiting_def audio_setcallbacks_def
        audio_input_start_def spawn_capture_thread_def capture_defs example_defs
        SUCCEEDED_def S_OK_def FAILED_def)

lemma reached_example_waiting:
  "reached example_create_env example_start_actions example_waiting"
  by (simp add: reached_def audio_create_example perform_example_start)

lemma reached_example_app_stopped:
  "reached example_create_env example_app_stop_actions example_app_stopped"
  by (simp add: reached_def audio_create_example example_app_stop_actions_def
        perform_all_append perform_example_start)
     (simp add: example_waiting_def example_app_stopped_def capture_defs example_defs
        S_OK_def FAILED_def)

lemma reached_example_registered:
  "reached example_create_env [SetCallbacks NULL NULL 0x2000 0x2100 0x3000 0x3100 NULL NULL]
     example_registered"
  by (simp add: reached_def audio_create_example)
     (simp add: audio_setcallbacks_def example_defs)

lemma start_example_registered:
  "audio_input_start example_start_env (Some example_registered)
     = (AUDIO_RESULT_OK, Some example_running,
        [SpawnThread, InputStateCb 0x2000 0x2100 AUDIO_STATE_STARTING, GetService 0x5000,
         ClientStart 0x5000])"
  by (simp add: audio_input_start_def spawn_capture_thread_def example_running_def
        capture_defs example_defs SUCCEEDED_def S_OK_def)

lemma platform_example_running:
  "perform_all (map Platform [GetServiceReturns S_OK 0x6000, NewReturns 0x7000])
       example_running
     = Some example_waiting"
  by (simp add: example_running_def example_waiting_def capture_defs example_defs
        S_OK_def FAILED_def)

lemma stop_example_waiting:
  "audio_input_stop [WaitReturns WAIT_OBJECT_0] (Some example_waiting)
     = Inr (AUDIO_RESULT_OK, Some example_registered,
            [ClientStop 0x5000, SetEvent 0x68, DeleteBytes 0x7000,
             InputStateCb 0x2000 0x2100 AUDIO_STATE_STOPPED, ReleaseCaptureClient 0x6000,
             JoinThread])"
  by (simp add: audio_input_stop_def example_waiting_def capture_defs example_defs)

section \<open>Callback registration: C1\<close>

text \<open>What \<open>audio_setcallbacks\<close> stores: every slot holds the argument passed for it, except
  the error context, which holds the error callback (line 286 overwrites line 285).  With
  a null handle or a null write callback nothing is stored.\<close>

lemma audio_setcallbacks_registered:
  assumes "write_cb \<noteq> NULL"
  shows "audio_setcallbacks (Some d) output_cb output_ctx input_cb input_ctx
           write_cb write_ctx err_cb err_ctx
         = (AUDIO_RESULT_OK,
            Some (d\<lparr> error_cb := err_cb, user_errorctx := err_cb,
                     input_state_cb := input_cb, user_inputctx := input_ctx,
                     output_state_cb := output_cb, user_outputctx := output_ctx,
                     audio_write_cb := write_cb, user_write_ctx := write_ctx \<rparr>))"
  using assms by (simp add: audio_setcallbacks_def)

lemma audio_setcallbacks_rejected:
  "audio_setcallbacks None output_cb output_ctx input_cb input_ctx
     write_cb write_ctx err_cb err_ctx = (AUDIO_RESULT_INVALID_ARG, None)"
  "audio_setcallbacks (Some d) output_cb output_ctx input_cb input_ctx
     NULL write_ctx err_cb err_ctx = (AUDIO_RESULT_INVALID_ARG, Some d)"
  by (simp_all add: audio_setcallbacks_def)

text \<open>
  \<^bold>\<open>C1\<close>.  The claim is that after a successful \<open>setCallbacks\<close> each context slot holds
  the context passed.  On the concrete session, registering the error callback \<open>0x4000\<close>
  with the error context \<open>0x4100\<close> returns OK and leaves \<open>0x4000\<close>, the callback, in the
  error context slot; the other seven slots hold their arguments.
\<close>

theorem audio_setcallbacks_error_context_slip:
  "audio_setcallbacks (Some example_session)
       0x1000 0x1100 0x2000 0x2100 0x3000 0x3100 0x4000 0x4100
     = (AUDIO_RESULT_OK,
        Some (example_session
          \<lparr> error_cb := 0x4000, user_errorctx := 0x4000,
            input_state_cb := 0x2000, user_inputctx := 0x2100,
            output_state_cb := 0x1000, user_outputctx := 0x1100,
            audio_write_cb := 0x3000, user_write_ctx := 0x3100 \<rparr>))"
  by (simp add: audio_setcallbacks_def)

section \<open>The exit path of the capture thread: C2\<close>

text \<open>The ways out of the loop that run the \<open>Exit:\<close> block: the shutdown signal (or any
  wait result other than "buffer ready"), and a platform error from \<open>GetService\<close>,
  \<open>GetNextPacketSize\<close> or \<open>GetBufferAndCallBackClient\<close>.\<close>

lemma capture_step_leaves_loop:
  assumes "hCaptureThread (sys w) = Joinable fr"
  shows "pc fr = InWait \<Longrightarrow> r \<noteq> WAIT_OBJECT_0 + 1
           \<Longrightarrow> capture_step (WaitReturns r) w = capture_Exit fr w"
    and "pc fr = InGetService \<Longrightarrow> FAILED hr
           \<Longrightarrow> capture_step (GetServiceReturns hr p) w
               = capture_Exit (fr\<lparr>pCaptureClient := p\<rparr>) w"
    and "pc fr = InGetNextPacketSize \<Longrightarrow> FAILED hr
           \<Longrightarrow> capture_step (GetNextPacketSizeReturns hr n) w
               = capture_Exit (fr\<lparr>packetLength := n\<rparr>) w"
    and "pc fr = InGetBuffer \<Longrightarrow> FAILED hr
           \<Longrightarrow> capture_step (GetBufferReturns hr written) w
               = capture_Exit
                   (fr\<lparr>audio_result :=
                        (case written of None \<Rightarrow> audio_result fr | Some v \<Rightarrow> v)\<rparr>) w"
  using assms by (auto simp: capture_step_def Let_def)

text \<open>The thread does return: from its wait, the shutdown wake-up ends it.\<close>

lemma captureThreadProc_returns_on_shutdown:
  assumes "hCaptureThread (sys (capture_run evs (capture_entry \<lparr>sys = pInput, effects = []\<rparr>)))
             = Joinable fr"
    and "pc fr = InWait"
  shows "\<exists>w. captureThreadProc (evs @ [WaitReturns WAIT_OBJECT_0]) pInput = Some w"
  using assms
  by (simp add: captureThreadProc_def capture_run_append capture_step_def WAIT_OBJECT_0_def
        capture_Exit_returned)

text \<open>
  What holds of the claim.  Whenever the capture thread has returned, its effects end
  with the exit path, run once: one \<open>delete[]\<close>, of the pointer that the new-expression
  has returned (of the null pointer when the thread has not come to allocate), with
  none before it; then, when an input-state callback is registered, exactly one call of
  it with STOPPED; then at most the release of the capture-data service.  The persisted
  input state is STOPPED.
\<close>

lemma captureThreadProc_exit_path:
  assumes "captureThreadProc evs pInput = Some w"
  shows "current_input_state (sys w) = AUDIO_STATE_STOPPED
       \<and> (\<exists>fr pre rel. hCaptureThread (sys w) = Joinable fr \<and> pc fr = Returned
            \<and> effects w =
                pre @ DeleteBytes (pAudioData fr)
                  # (if input_state_cb pInput \<noteq> NULL
                     then [InputStateCb (input_state_cb pInput) (user_inputctx pInput)
                             AUDIO_STATE_STOPPED]
                     else [])
                  @ rel
            \<and> (\<forall>p. DeleteBytes p \<notin> set pre)
            \<and> (rel = [] \<or> (\<exists>c. rel = [ReleaseCaptureClient c]))
            \<and> (\<forall>n p. NewBytes n p \<in> set pre \<longrightarrow> pAudioData fr = p)
            \<and> ((\<forall>n p. NewBytes n p \<notin> set pre) \<longrightarrow> pAudioData fr = NULL))"
proof -
  let ?w0 = "capture_entry \<lparr>sys = pInput, effects = []\<rparr>"
  from assms have w: "w = capture_run evs ?w0" and ret: "thread_returned (sys (capture_run evs ?w0))"
    by (auto simp: captureThreadProc_def Let_def split: if_splits)
  have "\<exists>fr0. hCaptureThread (sys ?w0) = Joinable fr0 \<and> pc fr0 \<noteq> Returned
           \<and> pAudioData fr0 = NULL"
    by (simp add: capture_entry_def Let_def initial_frame_def)
  then obtain fr0 where fr0: "hCaptureThread (sys ?w0) = Joinable fr0" "pc fr0 \<noteq> Returned"
    "pAudioData fr0 = NULL"
    by blast
  have cb: "input_state_cb (sys ?w0) = input_state_cb pInput"
    "user_inputctx (sys ?w0) = user_inputctx pInput"
    by (simp_all add: capture_entry_def Let_def)
  have e: "\<forall>p. DeleteBytes p \<notin> set (effects ?w0)" "\<forall>n p. NewBytes n p \<notin> set (effects ?w0)"
    by (auto simp: capture_entry_def Let_def)
  from run_returned_exit_block [OF fr0(1,2) ret]
  obtain fr pre rel where st: "current_input_state (sys w) = AUDIO_STATE_STOPPED"
    and fr: "hCaptureThread (sys w) = Joinable fr" "pc fr = Returned"
    and eff: "effects w =
               effects ?w0 @ pre @ DeleteBytes (pAudioData fr)
                 # (if input_state_cb pInput \<noteq> NULL
                    then [InputStateCb (input_state_cb pInput) (user_inputctx pInput)
                            AUDIO_STATE_STOPPED]
                    else [])
                 @ rel"
    and nd: "\<forall>p. DeleteBytes p \<notin> set pre"
    and rel: "rel = [] \<or> (\<exists>c. rel = [ReleaseCaptureClient c])"
    and t1: "\<forall>n p. NewBytes n p \<in> set pre \<longrightarrow> pAudioData fr = p"
    and t2: "(\<forall>n p. NewBytes n p \<notin> set pre) \<longrightarrow> pAudioData fr = pAudioData fr0"
    unfolding w cb by blast
  let ?pre = "effects ?w0 @ pre"
  have "effects w = ?pre @ DeleteBytes (pAudioData fr)
                 # (if input_state_cb pInput \<noteq> NULL
                    then [InputStateCb (input_state_cb pInput) (user_inputctx pInput)
                            AUDIO_STATE_STOPPED]
                    else [])
                 @ rel"
    by (simp add: eff)
  moreover have "\<forall>p. DeleteBytes p \<notin> set ?pre"
    using e(1) nd by simp
  moreover have "\<forall>n p. NewBytes n p \<in> set ?pre \<longrightarrow> pAudioData fr = p"
    using e(2) t1 by simp
  moreover have "(\<forall>n p. NewBytes n p \<notin> set ?pre) \<longrightarrow> pAudioData fr = NULL"
    using e(2) t2 fr0(3) by simp
  ultimately show ?thesis using st fr rel by blast
qed

text \<open>A failed allocation is no such way out: the thread is terminated where it stands,
  and no later answer of the platform moves it.\<close>

lemma capture_step_bad_alloc:
  assumes "hCaptureThread (sys w) = Joinable fr" and "pc fr = InNew"
  shows "capture_step NewThrows w
           = set_frame (fr\<lparr>pc := Terminated\<rparr>) (emit [Terminate] w)"
  using assms by (simp add: capture_step_def)

lemma capture_run_terminated:
  assumes "hCaptureThread (sys w) = Joinable fr" and "pc fr = Terminated"
  shows "capture_run evs w = w"
  using assms
  by (induction evs) (simp_all add: capture_step_def)

text \<open>
  \<^bold>\<open>C2\<close>.  The claim is that the exit path runs however the loop is left, a failed
  allocation of the scratch buffer included; line 327 tests the result of the
  new-expression for that.  But the new-expression of line 326 reports a failed
  allocation by throwing \<open>std::bad_alloc\<close>, which nothing catches.  On the concrete
  session, when \<open>GetService\<close> succeeds and the allocation fails, the thread does not
  return, whatever the platform answers afterwards: its effects are the STARTING
  notification, \<open>GetService\<close> and the termination; nothing is deleted, no STOPPED
  notification is made, and the persisted input state is still RUNNING.
\<close>

theorem captureThreadProc_bad_alloc_skips_exit:
  "capture_run example_bad_alloc_events
       (capture_entry \<lparr>sys = example_registered, effects = []\<rparr>)
     = \<lparr>sys = example_registered
                \<lparr>hCaptureThread :=
                   Joinable \<lparr> pc = Terminated, pCaptureClient = 0x6000, packetLength = 0,
                              audio_result = 0, pAudioData = NULL, totalSize = 320 \<rparr>,
                 current_input_state := AUDIO_STATE_RUNNING\<rparr>,
        effects = [InputStateCb 0x2000 0x2100 AUDIO_STATE_STARTING, GetService 0x5000,
                   Terminate]\<rparr>
   \<and> (\<forall>evs. captureThreadProc (example_bad_alloc_events @ evs) example_registered = None)"
proof -
  let ?w = "capture_run example_bad_alloc_events
              (capture_entry \<lparr>sys = example_registered, effects = []\<rparr>)"
  have a: "?w = \<lparr>sys = example_registered
                \<lparr>hCaptureThread :=
                   Joinable \<lparr> pc = Terminated, pCaptureClient = 0x6000, packetLength = 0,
                              audio_result = 0, pAudioData = NULL, totalSize = 320 \<rparr>,
                 current_input_state := AUDIO_STATE_RUNNING\<rparr>,
        effects = [InputStateCb 0x2000 0x2100 AUDIO_STATE_STARTING, GetService 0x5000,
                   Terminate]\<rparr>"
    by (simp add: example_bad_alloc_events_def capture_defs example_defs S_OK_def FAILED_def)
  have t: "hCaptureThread (sys ?w)
             = Joinable \<lparr> pc = Terminated, pCaptureClient = 0x6000, packetLength = 0,
                          audio_result = 0, pAudioData = NULL, totalSize = 320 \<rparr>"
    by (simp add: a)
  have "captureThreadProc (example_bad_alloc_events @ evs) example_registered = None" for evs
    using capture_run_terminated [OF t, of evs] t
    by (simp add: captureThreadProc_def capture_run_append thread_returned_def)
  with a show ?thesis by blast
qed

section \<open>The persisted state across create, start and stop: C3\<close>

text \<open>
  \<^bold>\<open>C3\<close>, as stated, fails for a \<open>start\<close> that finds a capture thread still joinable.
  In the sequential execution create, setCallbacks, start, one drained packet whose
  frame-write callback asks to stop (lines 353-360 store STOPPED, and the thread goes
  back to its wait), a second \<open>start\<close> passes the checks of lines 389 and 394, skips
  line 400 because the thread is joinable, starts the native stream and returns OK;
  the session is as before, its persisted input state STOPPED.
\<close>

theorem restart_after_app_stop_counterexample:
  "reached example_create_env example_app_stop_actions example_app_stopped
   \<and> audio_input_start example_start_env (Some example_app_stopped)
       = (AUDIO_RESULT_OK, Some example_app_stopped, [ClientStart 0x5000])
   \<and> current_input_state example_app_stopped = AUDIO_STATE_STOPPED"
  using reached_example_app_stopped
  by (simp add: audio_input_start_def example_app_stopped_def example_defs
        SUCCEEDED_def S_OK_def)

text \<open>
  \<^bold>\<open>C3\<close>, amended.  In a sequential execution (a new capture thread runs its entry as
  soon as it is spawned): after \<open>create\<close> returns a session its persisted input state is
  STOPPED and it has no joinable thread; after \<open>start\<close> returns OK on a session with no
  joinable thread the state is RUNNING; after \<open>stop\<close> returns OK the state is STOPPED
  and the thread is joined.  So from a session with no joinable thread, in a cycle
  start, stop, start, stop of calls that return OK, with any answers of the platform to
  the capture thread in between, the states are RUNNING, STOPPED, RUNNING, STOPPED.
\<close>

theorem input_state_after_create_start_stop:
  "(audio_create env = Inr (Some d, es) \<longrightarrow>
      current_input_state d = AUDIO_STATE_STOPPED \<and> hCaptureThread d = NotJoinable)
   \<and> (hCaptureThread d = NotJoinable
        \<and> audio_input_start senv (Some d) = (AUDIO_RESULT_OK, Some d', es) \<longrightarrow>
      current_input_state d' = AUDIO_STATE_RUNNING)
   \<and> (reached env acts d
        \<and> audio_input_stop evs (Some d) = Inr (AUDIO_RESULT_OK, Some d', es) \<longrightarrow>
      current_input_state d' = AUDIO_STATE_STOPPED \<and> hCaptureThread d' = NotJoinable)
   \<and> (reached env acts d \<and> hCaptureThread d = NotJoinable
        \<and> audio_input_start sA (Some d) = (AUDIO_RESULT_OK, Some dA, eA)
        \<and> perform_all (map Platform pA) dA = Some tA
        \<and> audio_input_stop jA (Some tA) = Inr (AUDIO_RESULT_OK, Some dB, eB)
        \<and> audio_input_start sB (Some dB) = (AUDIO_RESULT_OK, Some dC, eC)
        \<and> perform_all (map Platform pB) dC = Some tC
        \<and> audio_input_stop jB (Some tC) = Inr (AUDIO_RESULT_OK, Some dD, eD) \<longrightarrow>
      current_input_state dA = AUDIO_STATE_RUNNING
      \<and> current_input_state dB = AUDIO_STATE_STOPPED
      \<and> current_input_state dC = AUDIO_STATE_RUNNING
      \<and> current_input_state dD = AUDIO_STATE_STOPPED)"
proof -
  have a: "audio_create env = Inr (Some d, es) \<longrightarrow>
      current_input_state d = AUDIO_STATE_STOPPED \<and> hCaptureThread d = NotJoinable"
    using session_inv_create [of env d es] by simp
  have b: "hCaptureThread d = NotJoinable
        \<and> audio_input_start senv (Some d) = (AUDIO_RESULT_OK, Some d', es) \<longrightarrow>
      current_input_state d' = AUDIO_STATE_RUNNING"
    using start_spawned_running [of d senv d' es] by simp
  have c: "reached env acts d
        \<and> audio_input_stop evs (Some d) = Inr (AUDIO_RESULT_OK, Some d', es) \<longrightarrow>
      current_input_state d' = AUDIO_STATE_STOPPED \<and> hCaptureThread d' = NotJoinable"
    using reached_stop_stopped [of env acts d evs d' es] by simp
  have cyc: "current_input_state dA = AUDIO_STATE_RUNNING
      \<and> current_input_state dB = AUDIO_STATE_STOPPED
      \<and> current_input_state dC = AUDIO_STATE_RUNNING
      \<and> current_input_state dD = AUDIO_STATE_STOPPED"
    if rz: "reached env acts d" and nj: "hCaptureThread d = NotJoinable"
      and stA: "audio_input_start sA (Some d) = (AUDIO_RESULT_OK, Some dA, eA)"
      and plA: "perform_all (map Platform pA) dA = Some tA"
      and spA: "audio_input_stop jA (Some tA) = Inr (AUDIO_RESULT_OK, Some dB, eB)"
      and stB: "audio_input_start sB (Some dB) = (AUDIO_RESULT_OK, Some dC, eC)"
      and plB: "perform_all (map Platform pB) dC = Some tC"
      and spB: "audio_input_stop jB (Some tC) = Inr (AUDIO_RESULT_OK, Some dD, eD)"
  proof -
    from stA have "perform_all [Start sA] d = Some dA" by simp
    from reached_extend [OF rz this]
    have ra: "reached env (acts @ [Start sA]) dA" .
    from reached_extend [OF ra plA]
    have rta: "reached env ((acts @ [Start sA]) @ map Platform pA) tA" .
    from spA have "perform_all [Stop jA] tA = Some dB" by simp
    from reached_extend [OF rta this]
    have rb: "reached env (((acts @ [Start sA]) @ map Platform pA) @ [Stop jA]) dB" .
    from stB have "perform_all [Start sB] dB = Some dC" by simp
    from reached_extend [OF rb this]
    have rc: "reached env
                ((((acts @ [Start sA]) @ map Platform pA) @ [Stop jA]) @ [Start sB]) dC" .
    from reached_extend [OF rc plB]
    have rtc: "reached env
                 (((((acts @ [Start sA]) @ map Platform pA) @ [Stop jA]) @ [Start sB])
                    @ map Platform pB) tC" .
    from start_spawned_running [OF nj stA]
    have 1: "current_input_state dA = AUDIO_STATE_RUNNING" .
    from reached_stop_stopped [OF rta spA]
    have 2: "current_input_state dB = AUDIO_STATE_STOPPED"
      and njb: "hCaptureThread dB = NotJoinable" by simp_all
    from start_spawned_running [OF njb stB]
    have 3: "current_input_state dC = AUDIO_STATE_RUNNING" .
    from reached_stop_stopped [OF rtc spB]
    have 4: "current_input_state dD = AUDIO_STATE_STOPPED" by simp
    from 1 2 3 4 show ?thesis by simp
  qed
  from a b c cyc show ?thesis by blast
qed

text \<open>The cycle on the concrete session: created, callbacks registered, started, the
  thread brought to its wait, stopped, and the same again.\<close>

theorem input_state_after_create_start_stop_witness:
  "audio_create example_create_env =
     Inr (Some example_session,
          [ClientInitialize 0x5000, ClientSetEventHandle 0x5000 0x64, PromiseSetValue S_OK])
   \<and> current_input_state example_session = AUDIO_STATE_STOPPED
   \<and> reached example_create_env
       [SetCallbacks NULL NULL 0x2000 0x2100 0x3000 0x3100 NULL NULL] example_registered
   \<and> hCaptureThread example_registered = NotJoinable
   \<and> audio_input_start example_start_env (Some example_registered)
       = (AUDIO_RESULT_OK, Some example_running,
          [SpawnThread, InputStateCb 0x2000 0x2100 AUDIO_STATE_STARTING, GetService 0x5000,
           ClientStart 0x5000])
   \<and> perform_all (map Platform [GetServiceReturns S_OK 0x6000, NewReturns 0x7000])
         example_running = Some example_waiting
   \<and> audio_input_stop [WaitReturns WAIT_OBJECT_0] (Some example_waiting)
       = Inr (AUDIO_RESULT_OK, Some example_registered,
              [ClientStop 0x5000, SetEvent 0x68, DeleteBytes 0x7000,
               InputStateCb 0x2000 0x2100 AUDIO_STATE_STOPPED, ReleaseCaptureClient 0x6000,
               JoinThread])
   \<and> current_input_state example_running = AUDIO_STATE_RUNNING
   \<and> current_input_state example_registered = AUDIO_STATE_STOPPED"
proof -
  have nj: "hCaptureThread example_registered = NotJoinable"
    by (simp add: example_defs)
  note cycle = input_state_after_create_start_stop
    [where env = example_create_env and d = example_registered
       and acts = "[SetCallbacks NULL NULL 0x2000 0x2100 0x3000 0x3100 NULL NULL]"
       and sA = example_start_env and dA = example_running
       and pA = "[GetServiceReturns S_OK 0x6000, NewReturns 0x7000]"
       and tA = example_waiting and jA = "[WaitReturns WAIT_OBJECT_0]"
       and dB = example_registered
       and sB = example_start_env and dC = example_running
       and pB = "[GetServiceReturns S_OK 0x6000, NewReturns 0x7000]"
       and tC = example_waiting and jB = "[WaitReturns WAIT_OBJECT_0]"
       and dD = example_registered]
  note created = input_state_after_create_start_stop
    [where env = example_create_env and d = example_session]
  from cycle created nj audio_create_example reached_example_registered
    start_example_registered platform_example_running stop_example_waiting
  show ?thesis by simp
qed

section \<open>Rejected starts: C4\<close>

text \<open>
  \<^bold>\<open>C4\<close>, as stated for every session, fails where the buffer-ready signal is missing:
  the check of line 389 comes first, and a session without a registered write callback
  then gets INVALID_ARG, not INVALID_STATE.
\<close>

theorem audio_input_start_missing_signal_counterexample:
  "audio_write_cb
     (example_session\<lparr>spCapture := (spCapture example_session)\<lparr>hBufferReady := NULL\<rparr>\<rparr>) = NULL
   \<and> audio_input_start example_start_env
       (Some (example_session
                \<lparr>spCapture := (spCapture example_session)\<lparr>hBufferReady := NULL\<rparr>\<rparr>))
     = (AUDIO_RESULT_INVALID_ARG,
        Some (example_session
                \<lparr>spCapture := (spCapture example_session)\<lparr>hBufferReady := NULL\<rparr>\<rparr>), [])"
  by (simp add: audio_input_start_def example_defs)

text \<open>
  \<^bold>\<open>C4\<close>, amended.  For every session whose buffer-ready signal is present: when the
  persisted input state is RUNNING, or no write callback is registered, or the client
  handle is absent, \<open>start\<close> returns INVALID_STATE, leaves the session as it was (no
  thread is spawned) and performs no effect (the native stream is not started).
\<close>

theorem audio_input_start_invalid_state:
  assumes "hBufferReady (spCapture d) \<noteq> NULL"
    and "current_input_state d = AUDIO_STATE_RUNNING \<or> audio_write_cb d = NULL
         \<or> pAudioInputClient (spCapture d) = NULL"
  shows "audio_input_start env (Some d) = (AUDIO_RESULT_INVALID_STATE, Some d, [])"
  using assms by (auto simp: audio_input_start_def)

text \<open>On the running session, and on the session without a write callback.\<close>

theorem audio_input_start_invalid_state_witness:
  "hBufferReady (spCapture example_running) \<noteq> NULL
   \<and> current_input_state example_running = AUDIO_STATE_RUNNING
   \<and> audio_input_start example_start_env (Some example_running)
       = (AUDIO_RESULT_INVALID_STATE, Some example_running, [])
   \<and> hBufferReady (spCapture example_session) \<noteq> NULL
   \<and> audio_write_cb example_session = NULL
   \<and> audio_input_start example_start_env (Some example_session)
       = (AUDIO_RESULT_INVALID_STATE, Some example_session, [])"
proof -
  have r: "hBufferReady (spCapture example_running) \<noteq> NULL"
    "current_input_state example_running = AUDIO_STATE_RUNNING"
    by (simp_all add: example_running_def example_defs)
  have s: "hBufferReady (spCapture example_session) \<noteq> NULL"
    "audio_write_cb example_session = NULL"
    by (simp_all add: example_defs)
  from audio_input_start_invalid_state [of example_running example_start_env]
    audio_input_start_invalid_state [of example_session example_start_env] r s
  show ?thesis by simp
qed

section \<open>Stopping: C5\<close>

text \<open>
  \<^bold>\<open>C5\<close>.  \<open>stop\<close> with a null handle returns INVALID_ARG.  On a session that is not
  RUNNING it returns INVALID_STATE, with no effect (no signal is set, no thread joined)
  and the session as it was.  A RUNNING session of a sequential execution has its
  client and a joinable capture thread that is blocked in a platform call (or has been
  terminated by a failed allocation).  On a RUNNING session with a client, \<open>stop\<close> stops
  the native stream and sets the shutdown signal, in this order, and then: without a
  joinable thread it returns OK; with one it joins it, that is, it returns exactly when
  the capture thread has returned under the platform's answers, and then it returns
  OK, with the session the thread has left and the effects the thread has performed,
  followed by the join; otherwise it does not return.  No result but OK is possible.
  When \<open>stop\<close> has so returned, the thread has run its \<open>Exit:\<close> block, once, after the
  shutdown signal was set: the buffer it held or has allocated is deleted, the STOPPED
  notification made, and the persisted input state is STOPPED.  And \<open>stop\<close> does return:
  wherever the thread comes to its wait during the join, the wake-up of the shutdown
  signal makes it return; and from each call the thread can be blocked in, the answers
  of a platform that has nothing more to deliver bring it to its wait.
\<close>

theorem audio_input_stop_behaviour:
  "audio_input_stop evs None = Inr (AUDIO_RESULT_INVALID_ARG, None, [])
   \<and> (current_input_state d \<noteq> AUDIO_STATE_RUNNING \<longrightarrow>
        audio_input_stop evs (Some d) = Inr (AUDIO_RESULT_INVALID_STATE, Some d, []))
   \<and> (current_input_state d = AUDIO_STATE_RUNNING \<and> reached env acts d \<longrightarrow>
        pAudioInputClient (spCapture d) \<noteq> NULL
        \<and> (\<exists>fr. hCaptureThread d = Joinable fr
               \<and> (blocked_in_call (pc fr) \<or> pc fr = Terminated)))
   \<and> (current_input_state d = AUDIO_STATE_RUNNING \<and> pAudioInputClient (spCapture d) \<noteq> NULL
        \<and> hCaptureThread d = NotJoinable \<longrightarrow>
        audio_input_stop evs (Some d)
          = Inr (AUDIO_RESULT_OK, Some d,
                 [ClientStop (pAudioInputClient (spCapture d)),
                  SetEvent (hCaptureThreadShouldExit (spCapture d))]))
   \<and> (current_input_state d = AUDIO_STATE_RUNNING \<and> pAudioInputClient (spCapture d) \<noteq> NULL
        \<and> hCaptureThread d = Joinable fr \<longrightarrow>
        audio_input_stop evs (Some d) =
          (if thread_returned (sys (capture_run evs (stop_world d)))
           then Inr (AUDIO_RESULT_OK,
                     Some ((sys (capture_run evs (stop_world d)))
                              \<lparr>hCaptureThread := NotJoinable\<rparr>),
                     effects (capture_run evs (stop_world d)) @ [JoinThread])
           else Inl JoinNeverReturns))
   \<and> (hCaptureThread d = Joinable fr \<and> pc fr \<noteq> Returned
        \<and> thread_returned (sys (capture_run evs (stop_world d))) \<longrightarrow>
        current_input_state (sys (capture_run evs (stop_world d))) = AUDIO_STATE_STOPPED
        \<and> (\<exists>fr' pre rel.
              hCaptureThread (sys (capture_run evs (stop_world d))) = Joinable fr'
            \<and> pc fr' = Returned
            \<and> effects (capture_run evs (stop_world d)) =
                [ClientStop (pAudioInputClient (spCapture d)),
                 SetEvent (hCaptureThreadShouldExit (spCapture d))]
                @ pre @ DeleteBytes (pAudioData fr')
                  # (if input_state_cb d \<noteq> NULL
                     then [InputStateCb (input_state_cb d) (user_inputctx d)
                             AUDIO_STATE_STOPPED]
                     else [])
                  @ rel
            \<and> (\<forall>p. DeleteBytes p \<notin> set pre)
            \<and> (rel = [] \<or> (\<exists>c. rel = [ReleaseCaptureClient c]))
            \<and> (\<forall>n p. NewBytes n p \<in> set pre \<longrightarrow> pAudioData fr' = p)
            \<and> ((\<forall>n p. NewBytes n p \<notin> set pre) \<longrightarrow> pAudioData fr' = pAudioData fr)))
   \<and> (\<forall>evs1 evs2 fr'.
         hCaptureThread (sys (capture_run evs1 (stop_world d))) = Joinable fr'
         \<and> pc fr' = InWait \<longrightarrow>
         thread_returned
           (sys (capture_run (evs1 @ WaitReturns WAIT_OBJECT_0 # evs2) (stop_world d))))
   \<and> (current_input_state d = AUDIO_STATE_RUNNING \<and> pAudioInputClient (spCapture d) \<noteq> NULL
        \<and> hCaptureThread d = Joinable fr \<and> blocked_in_call (pc fr) \<longrightarrow>
        (\<exists>d' es. audio_input_stop (quiet_answers (pc fr) @ WaitReturns WAIT_OBJECT_0 # evs)
                    (Some d)
                  = Inr (AUDIO_RESULT_OK, Some d', es)
                \<and> current_input_state d' = AUDIO_STATE_STOPPED
                \<and> hCaptureThread d' = NotJoinable))"
proof -
  let ?c = "pAudioInputClient (spCapture d)"
  let ?h = "hCaptureThreadShouldExit (spCapture d)"
  let ?W = "capture_run evs (stop_world d)"
  have c1: "audio_input_stop evs None = Inr (AUDIO_RESULT_INVALID_ARG, None, [])"
    by (simp add: audio_input_stop_def)
  have c2: "current_input_state d \<noteq> AUDIO_STATE_RUNNING \<longrightarrow>
        audio_input_stop evs (Some d) = Inr (AUDIO_RESULT_INVALID_STATE, Some d, [])"
    by (simp add: audio_input_stop_def)
  have c3: "?c \<noteq> NULL
        \<and> (\<exists>fr. hCaptureThread d = Joinable fr
               \<and> (blocked_in_call (pc fr) \<or> pc fr = Terminated))"
    if "current_input_state d = AUDIO_STATE_RUNNING" and "reached env acts d"
  proof -
    from reached_inv [OF that(2)] that(1)
    obtain fr where fr: "hCaptureThread d = Joinable fr" "pc fr \<noteq> Returned" "pc fr \<noteq> Faulted"
      and c: "?c \<noteq> NULL"
      by (auto simp: session_inv_def)
    from fr(2,3) have "blocked_in_call (pc fr) \<or> pc fr = Terminated"
      by (cases "pc fr") (simp_all add: blocked_in_call_def)
    with fr(1) c show ?thesis by blast
  qed
  have c4: "current_input_state d = AUDIO_STATE_RUNNING \<and> ?c \<noteq> NULL
        \<and> hCaptureThread d = NotJoinable \<longrightarrow>
        audio_input_stop evs (Some d)
          = Inr (AUDIO_RESULT_OK, Some d, [ClientStop ?c, SetEvent ?h])"
    by (simp add: audio_input_stop_def)
  have c5: "audio_input_stop evs (Some d) =
          (if thread_returned (sys ?W)
           then Inr (AUDIO_RESULT_OK, Some ((sys ?W)\<lparr>hCaptureThread := NotJoinable\<rparr>),
                     effects ?W @ [JoinThread])
           else Inl JoinNeverReturns)"
    if "current_input_state d = AUDIO_STATE_RUNNING" and "?c \<noteq> NULL"
      and "hCaptureThread d = Joinable fr"
    by (rule audio_input_stop_join [OF that])
  have c6: "current_input_state (sys ?W) = AUDIO_STATE_STOPPED
        \<and> (\<exists>fr' pre rel.
              hCaptureThread (sys ?W) = Joinable fr' \<and> pc fr' = Returned
            \<and> effects ?W =
                [ClientStop ?c, SetEvent ?h]
                @ pre @ DeleteBytes (pAudioData fr')
                  # (if input_state_cb d \<noteq> NULL
                     then [InputStateCb (input_state_cb d) (user_inputctx d)
                             AUDIO_STATE_STOPPED]
                     else [])
                  @ rel
            \<and> (\<forall>p. DeleteBytes p \<notin> set pre)
            \<and> (rel = [] \<or> (\<exists>c. rel = [ReleaseCaptureClient c]))
            \<and> (\<forall>n p. NewBytes n p \<in> set pre \<longrightarrow> pAudioData fr' = p)
            \<and> ((\<forall>n p. NewBytes n p \<notin> set pre) \<longrightarrow> pAudioData fr' = pAudioData fr))"
    if "hCaptureThread d = Joinable fr" and "pc fr \<noteq> Returned" and "thread_returned (sys ?W)"
    by (rule run_returned_exit_block
               [of "stop_world d" fr evs, unfolded stop_world_simps, OF that])
  have c7: "thread_returned
           (sys (capture_run (evs1 @ WaitReturns WAIT_OBJECT_0 # evs2) (stop_world d)))"
    if "hCaptureThread (sys (capture_run evs1 (stop_world d))) = Joinable fr'"
      and "pc fr' = InWait" for evs1 evs2 fr'
    by (rule capture_run_reaches_wait_returns [OF that])
  have c8: "\<exists>d' es. audio_input_stop (quiet_answers (pc fr) @ WaitReturns WAIT_OBJECT_0 # evs)
                    (Some d)
                  = Inr (AUDIO_RESULT_OK, Some d', es)
                \<and> current_input_state d' = AUDIO_STATE_STOPPED
                \<and> hCaptureThread d' = NotJoinable"
    if run: "current_input_state d = AUDIO_STATE_RUNNING" and c: "?c \<noteq> NULL"
      and fr: "hCaptureThread d = Joinable fr" and b: "blocked_in_call (pc fr)"
  proof -
    let ?evs = "quiet_answers (pc fr) @ WaitReturns WAIT_OBJECT_0 # evs"
    from quiet_answers_reach_wait [of "stop_world d" fr] fr b
    obtain fr' where "hCaptureThread (sys (capture_run (quiet_answers (pc fr)) (stop_world d)))
                        = Joinable fr'" "pc fr' = InWait"
      by auto
    from capture_run_reaches_wait_returns [OF this]
    have ret: "thread_returned (sys (capture_run ?evs (stop_world d)))" .
    from b have "pc fr \<noteq> Returned" by (auto simp: blocked_in_call_def)
    from run_returned_exit_block [of "stop_world d" fr ?evs] fr this ret
    have "current_input_state (sys (capture_run ?evs (stop_world d))) = AUDIO_STATE_STOPPED"
      by simp
    with audio_input_stop_join [OF run c fr, of ?evs] ret show ?thesis
      by simp
  qed
  from c1 c2 c3 c4 c5 c6 c7 c8 show ?thesis by blast
qed

text \<open>On the session whose capture thread is blocked in its wait, and on the one whose
  capture thread is retrieving a buffer.\<close>

theorem audio_input_stop_behaviour_witness:
  "current_input_state example_waiting = AUDIO_STATE_RUNNING
   \<and> reached example_create_env example_start_actions example_waiting
   \<and> pAudioInputClient (spCapture example_waiting) \<noteq> NULL
   \<and> thread_returned (sys (capture_run [WaitReturns WAIT_OBJECT_0] (stop_world example_waiting)))
   \<and> audio_input_stop [WaitReturns WAIT_OBJECT_0] (Some example_waiting)
       = Inr (AUDIO_RESULT_OK, Some example_registered,
              [ClientStop 0x5000, SetEvent 0x68, DeleteBytes 0x7000,
               InputStateCb 0x2000 0x2100 AUDIO_STATE_STOPPED, ReleaseCaptureClient 0x6000,
               JoinThread])
   \<and> current_input_state example_draining = AUDIO_STATE_RUNNING
   \<and> (\<exists>d' es. audio_input_stop
                  [GetBufferReturns S_OK None, GetNextPacketSizeReturns S_OK 0,
                   WaitReturns WAIT_OBJECT_0] (Some example_draining)
                = Inr (AUDIO_RESULT_OK, Some d', es)
              \<and> current_input_state d' = AUDIO_STATE_STOPPED
              \<and> hCaptureThread d' = NotJoinable)
   \<and> current_input_state example_session \<noteq> AUDIO_STATE_RUNNING
   \<and> audio_input_stop [] (Some example_session)
       = Inr (AUDIO_RESULT_INVALID_STATE, Some example_session, [])"
proof -
  let ?frw = "\<lparr> pc = InWait, pCaptureClient = 0x6000, packetLength = 0,
                audio_result = 0, pAudioData = 0x7000, totalSize = 320 \<rparr>"
  let ?frd = "\<lparr> pc = InGetBuffer, pCaptureClient = 0x6000, packetLength = 160,
                audio_result = 0, pAudioData = 0x7000, totalSize = 320 \<rparr>"
  have h: "current_input_state example_waiting = AUDIO_STATE_RUNNING"
    "pAudioInputClient (spCapture example_waiting) \<noteq> NULL"
    "hCaptureThread example_waiting = Joinable ?frw"
    by (simp_all add: example_waiting_def example_defs)
  have g: "current_input_state example_draining = AUDIO_STATE_RUNNING"
    "pAudioInputClient (spCapture example_draining) \<noteq> NULL"
    "hCaptureThread example_draining = Joinable ?frd"
    "blocked_in_call (pc ?frd)"
    by (simp_all add: example_draining_def example_defs blocked_in_call_def)
  have s: "current_input_state example_session \<noteq> AUDIO_STATE_RUNNING"
    by (simp add: example_defs)
  have w: "capture_run [WaitReturns WAIT_OBJECT_0] (stop_world example_waiting)
      = \<lparr>sys = example_registered
                \<lparr>hCaptureThread :=
                   Joinable \<lparr> pc = Returned, pCaptureClient = NULL, packetLength = 0,
                              audio_result = 0, pAudioData = 0x7000, totalSize = 320 \<rparr>\<rparr>,
         effects = [ClientStop 0x5000, SetEvent 0x68, DeleteBytes 0x7000,
               InputStateCb 0x2000 0x2100 AUDIO_STATE_STOPPED, ReleaseCaptureClient 0x6000]\<rparr>"
    by (simp add: stop_world_def example_waiting_def capture_defs example_defs)
  have r: "thread_returned
             (sys (capture_run [WaitReturns WAIT_OBJECT_0] (stop_world example_waiting)))"
    by (simp only: w) (simp add: thread_returned_def)
  have e: "example_registered\<lparr>hCaptureThread := NotJoinable\<rparr> = example_registered"
    by (simp add: example_defs)
  from audio_input_stop_behaviour
         [where evs = "[WaitReturns WAIT_OBJECT_0]" and d = example_waiting and fr = ?frw
            and env = example_create_env and acts = example_start_actions]
    h r reached_example_waiting
  have a: "audio_input_stop [WaitReturns WAIT_OBJECT_0] (Some example_waiting)
       = Inr (AUDIO_RESULT_OK, Some example_registered,
              [ClientStop 0x5000, SetEvent 0x68, DeleteBytes 0x7000,
               InputStateCb 0x2000 0x2100 AUDIO_STATE_STOPPED, ReleaseCaptureClient 0x6000,
               JoinThread])"
    by (simp del: capture_run.simps add: e w)
  from audio_input_stop_behaviour
         [where evs = "[]" and d = example_draining and fr = ?frd] g
  have b: "\<exists>d' es. audio_input_stop
                  [GetBufferReturns S_OK None, GetNextPacketSizeReturns S_OK 0,
                   WaitReturns WAIT_OBJECT_0] (Some example_draining)
                = Inr (AUDIO_RESULT_OK, Some d', es)
              \<and> current_input_state d' = AUDIO_STATE_STOPPED
              \<and> hCaptureThread d' = NotJoinable"
    by simp
  from audio_input_stop_behaviour [where evs = "[]" and d = example_session] s
  have c: "audio_input_stop [] (Some example_session)
       = Inr (AUDIO_RESULT_INVALID_STATE, Some example_session, [])"
    by simp
  from h g s r a b c reached_example_waiting show ?thesis by simp
qed

section \<open>The activation completion handler: C6\<close>

text \<open>The part of the claim that holds: when \<open>Initialize\<close> succeeds and \<open>SetEventHandle\<close>
  fails, the client is released and then the promise is set, once, to that failure.\<close>

lemma ActivateCompleted_SetEventHandle_failure:
  assumes "\<not> FAILED (getActivateResult_hr operation)"
    and "\<not> FAILED (hrActivateResult operation)"
    and "audioClient operation \<noteq> NULL"
    and "\<not> FAILED (initialize_hr operation)"
    and "FAILED (setEventHandle_hr operation)"
    and "m_promise cap = None"
  shows "ActivateCompleted operation cap =
    Inr (S_OK,
         cap\<lparr>pAudioInputClient := audioClient operation, audioInFormat := pcm_format,
             m_promise := Some (setEventHandle_hr operation)\<rparr>,
         [ClientInitialize (audioClient operation),
          ClientSetEventHandle (audioClient operation) (hBufferReady cap),
          ClientRelease (audioClient operation),
          PromiseSetValue (setEventHandle_hr operation)])"
  using assms by (simp add: ActivateCompleted_def ActivateCompleted_Exit_def Let_def)

text \<open>
  \<^bold>\<open>C6\<close>.  The claim is that every path through the handler sets the promise once, to
  success or to the first failure.  On a freshly constructed capture object: when
  \<open>GetActivateResult\<close> fails, the \<open>Exit:\<close> block calls \<open>Release\<close> through the still null
  client pointer and the promise is not set; when the activation result is a failure
  (access denied), line 119 jumps to \<open>Exit:\<close> with \<open>hr\<close> still holding the success of
  line 116, and the promise is set to \<open>S_OK\<close>.
\<close>

theorem ActivateCompleted_failure_paths:
  "ActivateCompleted (example_activation\<lparr>getActivateResult_hr := E_FAIL\<rparr>)
     (new_WASAPICapture example_create_env) = Inl ReleaseOnNullClient
   \<and> ActivateCompleted (example_activation\<lparr>hrActivateResult := E_ACCESSDENIED\<rparr>)
       (new_WASAPICapture example_create_env)
     = Inr (S_OK, (new_WASAPICapture example_create_env)\<lparr>m_promise := Some S_OK\<rparr>,
            [PromiseSetValue S_OK])"
  by (simp add: ActivateCompleted_def ActivateCompleted_Exit_def example_activation_def
        new_WASAPICapture_def Let_def)

section \<open>An application-requested stop: C7\<close>

text \<open>Inside the drain loop the thread goes back to the wait only when the packet size
  it has queried is zero.\<close>

lemma drain_returns_to_wait_only_on_zero:
  assumes "hCaptureThread (sys w) = Joinable fr"
    and "pc fr = InGetNextPacketSize \<or> pc fr = InGetBuffer"
    and "hCaptureThread (sys (capture_step ev w)) = Joinable fr'" and "pc fr' = InWait"
  shows "\<exists>hr. ev = GetNextPacketSizeReturns hr 0 \<and> \<not> FAILED hr"
  using assms
  by (cases ev) (auto simp: capture_step_def Let_def capture_Exit_sys split: if_splits)

text \<open>
  \<^bold>\<open>C7\<close>.  When \<open>GetBufferAndCallBackClient\<close> returns with \<open>audio_result\<close> non-zero (the
  frame-write callback has asked to stop), the thread sets the persisted input state to
  STOPPED and calls the input-state callback (when one is registered) with STOPPED.
  Unless the retrieval itself has failed (a platform error, which leaves the loop),
  these are its only effects before it queries the next packet size: it is still in
  the drain loop, and from there a non-zero packet size leads to the next buffer
  retrieval and a zero packet size back to the wait.
\<close>

theorem capture_stop_request_keeps_draining:
  assumes "hCaptureThread (sys w) = Joinable fr" and "pc fr = InGetBuffer"
    and "(case written of None \<Rightarrow> audio_result fr | Some v \<Rightarrow> v) \<noteq> 0"
  shows "current_input_state (sys (capture_step (GetBufferReturns hr written) w))
           = AUDIO_STATE_STOPPED
       \<and> (\<exists>new. effects (capture_step (GetBufferReturns hr written) w) = effects w @ new
              \<and> (input_state_cb (sys w) \<noteq> NULL \<longrightarrow>
                   InputStateCb (input_state_cb (sys w)) (user_inputctx (sys w))
                     AUDIO_STATE_STOPPED \<in> set new))
       \<and> (\<not> FAILED hr \<longrightarrow>
            effects (capture_step (GetBufferReturns hr written) w)
              = effects w
                @ (if input_state_cb (sys w) \<noteq> NULL
                   then [InputStateCb (input_state_cb (sys w)) (user_inputctx (sys w))
                           AUDIO_STATE_STOPPED]
                   else [])
                @ [GetNextPacketSize (pCaptureClient fr)]
          \<and> (\<exists>fr'. hCaptureThread (sys (capture_step (GetBufferReturns hr written) w))
                      = Joinable fr' \<and> pc fr' = InGetNextPacketSize)
          \<and> (\<forall>hr' n. \<not> FAILED hr' \<longrightarrow>
                (\<exists>fr'. hCaptureThread
                         (sys (capture_step (GetNextPacketSizeReturns hr' n)
                                (capture_step (GetBufferReturns hr written) w)))
                       = Joinable fr'
                      \<and> pc fr' = (if n = 0 then InWait else InGetBuffer))))"
  using assms by (simp add: capture_step_def Let_def capture_Exit_sys capture_Exit_effects)

text \<open>On the session whose capture thread is retrieving a buffer.\<close>

theorem capture_stop_request_keeps_draining_witness:
  "(\<exists>fr. hCaptureThread example_draining = Joinable fr \<and> pc fr = InGetBuffer)
   \<and> \<not> FAILED S_OK
   \<and> current_input_state
        (sys (capture_step (GetBufferReturns S_OK (Some 1))
                \<lparr>sys = example_draining, effects = []\<rparr>)) = AUDIO_STATE_STOPPED
   \<and> effects (capture_step (GetBufferReturns S_OK (Some 1))
                \<lparr>sys = example_draining, effects = []\<rparr>)
       = [InputStateCb 0x2000 0x2100 AUDIO_STATE_STOPPED, GetNextPacketSize 0x6000]"
proof -
  let ?fr = "\<lparr> pc = InGetBuffer, pCaptureClient = 0x6000, packetLength = 160,
               audio_result = 0, pAudioData = 0x7000, totalSize = 320 \<rparr>"
  have h: "hCaptureThread (sys \<lparr>sys = example_draining, effects = []\<rparr>) = Joinable ?fr"
    "pc ?fr = InGetBuffer"
    "(case Some 1 of None \<Rightarrow> audio_result ?fr | Some v \<Rightarrow> v) \<noteq> 0"
    by (simp_all add: example_draining_def)
  from capture_stop_request_keeps_draining [OF h, of S_OK] h
  show ?thesis by (simp add: example_draining_def example_defs)
qed

section \<open>Shutdown wins the wait: C8\<close>

text \<open>
  \<^bold>\<open>C8\<close>.  The array of line 308 has the shutdown signal at index 0.  When the thread
  is blocked in its wait and both signals are set, the platform's wait answers
  \<open>WAIT_OBJECT_0\<close>; on that answer the thread runs the \<open>Exit:\<close> block and returns, the
  effects it adds contain no packet-size query and no buffer retrieval, and it does
  nothing afterwards.
\<close>

theorem shutdown_wins_the_wait:
  assumes "hCaptureThread (sys w) = Joinable fr" and "pc fr = InWait"
    and "hCaptureThreadShouldExit (spCapture (sys w)) \<in> signalled"
    and "hBufferReady (spCapture (sys w)) \<in> signalled"
  shows "wait_any (allEvents (sys w)) signalled = Some WAIT_OBJECT_0
       \<and> capture_step (WaitReturns WAIT_OBJECT_0) w = capture_Exit fr w
       \<and> thread_returned (sys (capture_step (WaitReturns WAIT_OBJECT_0) w))
       \<and> (\<exists>new. effects (capture_step (WaitReturns WAIT_OBJECT_0) w) = effects w @ new
              \<and> (\<forall>e \<in> set new. \<not> is_drain_call e))
       \<and> (\<forall>evs. capture_run evs (capture_step (WaitReturns WAIT_OBJECT_0) w)
                  = capture_step (WaitReturns WAIT_OBJECT_0) w)"
proof -
  have st: "capture_step (WaitReturns WAIT_OBJECT_0) w = capture_Exit fr w"
    using assms(1,2) by (simp add: capture_step_def WAIT_OBJECT_0_def)
  have ret: "thread_returned (sys (capture_Exit fr w))"
    by (simp add: capture_Exit_sys thread_returned_def)
  have "\<And>evs. capture_run evs (capture_Exit fr w) = capture_Exit fr w"
    by (rule capture_run_returned [OF ret])
  then show ?thesis
    using assms(3) ret
    by (auto simp: st wait_any_def allEvents_def capture_Exit_effects)
qed

text \<open>On the session whose capture thread is blocked in its wait, with both of its
  signals set.\<close>

theorem shutdown_wins_the_wait_witness:
  "(\<exists>fr. hCaptureThread example_waiting = Joinable fr \<and> pc fr = InWait)
   \<and> hCaptureThreadShouldExit (spCapture example_waiting) \<in> {0x64, 0x68}
   \<and> hBufferReady (spCapture example_waiting) \<in> {0x64, 0x68}
   \<and> wait_any (allEvents example_waiting) {0x64, 0x68} = Some WAIT_OBJECT_0
   \<and> thread_returned
       (sys (capture_step (WaitReturns WAIT_OBJECT_0)
               \<lparr>sys = example_waiting, effects = []\<rparr>))"
proof -
  let ?fr = "\<lparr> pc = InWait, pCaptureClient = 0x6000, packetLength = 0,
               audio_result = 0, pAudioData = 0x7000, totalSize = 320 \<rparr>"
  let ?w = "\<lparr>sys = example_waiting, effects = []\<rparr>"
  have h: "hCaptureThread (sys ?w) = Joinable ?fr" "pc ?fr = InWait"
    "hCaptureThreadShouldExit (spCapture (sys ?w)) \<in> {0x64, 0x68}"
    "hBufferReady (spCapture (sys ?w)) \<in> {0x64, 0x68}"
    by (simp_all add: example_waiting_def example_defs)
  from shutdown_wins_the_wait [OF h] h
  show ?thesis by auto
qed

section \<open>Clearing the device name: C9\<close>

text \<open>
  \<^bold>\<open>C9\<close>.  With the two option names distinct and the string store able to allocate:
  on every session, \<open>setOption\<close> of the device name to \<open>"mic1"\<close> returns OK and stores
  \<open>"mic1"\<close>, and \<open>setOption\<close> of the device name to null then returns OK and leaves the
  empty string in a store that still exists.
\<close>

theorem audio_set_options_devicename_cleared:
  assumes "frame_count_option \<noteq> devicename_option"
  shows "\<exists>d1 d2.
     audio_set_options frame_count_option devicename_option True (Some d)
        devicename_option (Some (StringValue ''mic1'')) = Inr (AUDIO_RESULT_OK, Some d1)
   \<and> hDeviceName d1 = Some ''mic1''
   \<and> audio_set_options frame_count_option devicename_option True (Some d1)
        devicename_option None = Inr (AUDIO_RESULT_OK, Some d2)
   \<and> hDeviceName d2 = Some ''''"
  using assms
  by (cases "hDeviceName d")
     (simp_all add: audio_set_options_def STRING_construct_def STRING_copy_def Let_def)

text \<open>On the concrete session, with two distinct option names.\<close>

theorem audio_set_options_devicename_cleared_witness:
  "''buff_frame_count'' \<noteq> ''devicename''
   \<and> (\<exists>d1 d2.
     audio_set_options ''buff_frame_count'' ''devicename'' True (Some example_session)
        ''devicename'' (Some (StringValue ''mic1'')) = Inr (AUDIO_RESULT_OK, Some d1)
   \<and> hDeviceName d1 = Some ''mic1''
   \<and> audio_set_options ''buff_frame_count'' ''devicename'' True (Some d1)
        ''devicename'' None = Inr (AUDIO_RESULT_OK, Some d2)
   \<and> hDeviceName d2 = Some '''')"
proof -
  have h: "''buff_frame_count'' \<noteq> ''devicename''" by simp
  from audio_set_options_devicename_cleared [OF h, of example_session] h
  show ?thesis by blast
qed

section \<open>The guarded input-state callback: C10\<close>



end
